theory Spec2Isabelle
  imports Complex_Main
begin

section \<open>RNN regression: the model's construction and the trainer's control flow\<close>

text \<open>
  A shallow embedding of \<^verbatim>\<open>factslab/pytorch/rnnregression.py\<close>. Tensors of
  floating-point numbers are lists (of lists) of reals; every exception the Python raises
  is a value of \<open>error\<close>, returned on the left of a sum. The recurrent layers, the
  loss functions, the optimizer and \<^verbatim>\<open>scipy.stats.pearsonr\<close> belong to external
  libraries and are parameters of the functions that call them.
\<close>

subsection \<open>Exceptions\<close>

datatype error =
    ValueError | AttributeError | TypeError | KeyError | NameError | AssertionError
  | UnboundLocalError | RuntimeError | IndexError | ZeroDivisionError

text \<open>Running a fallible function over a list stops at the first exception.\<close>

fun map_err :: "('a \<Rightarrow> error + 'b) \<Rightarrow> 'a list \<Rightarrow> error + 'b list" where
  "map_err f [] = Inr []"
| "map_err f (x # xs) =
     (case f x of
        Inl e \<Rightarrow> Inl e
      | Inr y \<Rightarrow> (case map_err f xs of Inl e \<Rightarrow> Inl e | Inr ys \<Rightarrow> Inr (y # ys)))"

subsection \<open>Cascade parameters: \<^verbatim>\<open>_homogenize_parameters\<close>, \<^verbatim>\<open>_validate_parameters\<close>\<close>

text \<open>
  A constructor argument is either a single value or an iterable of values
  (\<^verbatim>\<open>isinstance(p, Iterable)\<close>).
\<close>

datatype 'a param = Scalar 'a | Iter "'a list"

text \<open>
  The classes a stage is made of, as far as \<^verbatim>\<open>_run_rnns\<close> and
  \<^verbatim>\<open>_initialize_regression\<close> tell them apart with \<^verbatim>\<open>isinstance\<close>.
\<close>

datatype rnn_class = LSTM | ChildSumTreeLSTM | OtherRNN

fun iter_len :: "'a param \<Rightarrow> nat list" where
  "iter_len (Scalar v) = []"
| "iter_len (Iter xs) = [length xs]"

definition supplied_lengths ::
  "rnn_class param \<Rightarrow> int param \<Rightarrow> int param \<Rightarrow> bool param \<Rightarrow> nat list" where
  "supplied_lengths rnn_classes rnn_hidden_sizes num_rnn_layers bidirectional =
     iter_len rnn_classes @ iter_len rnn_hidden_sizes @ iter_len num_rnn_layers
       @ iter_len bidirectional"

text \<open>\<^verbatim>\<open>max([len(p) for p in iterables]) if iterables else 1\<close>\<close>

definition max_length ::
  "rnn_class param \<Rightarrow> int param \<Rightarrow> int param \<Rightarrow> bool param \<Rightarrow> nat" where
  "max_length rnn_classes rnn_hidden_sizes num_rnn_layers bidirectional =
     (case supplied_lengths rnn_classes rnn_hidden_sizes num_rnn_layers bidirectional of
        [] \<Rightarrow> 1
      | l # ls \<Rightarrow> fold max ls l)"

text \<open>\<^verbatim>\<open>[p] * max_length\<close> for a single value, the iterable itself otherwise.\<close>

fun broadcast :: "nat \<Rightarrow> 'a param \<Rightarrow> 'a list" where
  "broadcast n (Scalar v) = replicate n v"
| "broadcast n (Iter xs) = xs"

record rnn_config =
  rnn_classes :: "rnn_class list"
  rnn_hidden_sizes :: "int list"
  num_rnn_layers :: "int list"
  bidirectional :: "bool list"

definition homogenize_parameters ::
  "rnn_class param \<Rightarrow> int param \<Rightarrow> int param \<Rightarrow> bool param \<Rightarrow> rnn_config" where
  "homogenize_parameters cs hs ns bs =
     (let n = max_length cs hs ns bs in
      \<lparr>rnn_classes = broadcast n cs, rnn_hidden_sizes = broadcast n hs,
       num_rnn_layers = broadcast n ns, bidirectional = broadcast n bs\<rparr>)"

text \<open>The three assertions, any failure of which is re-raised as a \<^verbatim>\<open>ValueError\<close>.\<close>

definition validate_parameters :: "rnn_config \<Rightarrow> error + unit" where
  "validate_parameters c =
     (if length (rnn_classes c) = length (rnn_hidden_sizes c)
         \<and> length (rnn_classes c) = length (num_rnn_layers c)
         \<and> length (rnn_classes c) = length (bidirectional c)
      then Inr () else Inl ValueError)"

subsection \<open>The encoder cascade: \<^verbatim>\<open>_initialize_rnn\<close>\<close>

text \<open>
  What the constructor of a stage is called with. The constructor itself is the
  library's; the record keeps its arguments.
\<close>

record rnn_spec =
  rnn_class_of :: rnn_class
  input_size :: int
  hidden_size :: int
  num_layers :: int
  bidir :: bool

text \<open>
  The loop over \<^verbatim>\<open>zip(rnn_classes, rnn_hidden_sizes, num_rnn_layers, bidirectional)\<close>,
  threading \<^verbatim>\<open>output_size\<close>; it returns the stages and the last
  \<^verbatim>\<open>output_size\<close>.
\<close>

fun build_rnns ::
  "int \<Rightarrow> (rnn_class \<times> int \<times> int \<times> bool) list \<Rightarrow> rnn_spec list \<times> int" where
  "build_rnns output_size [] = ([], output_size)"
| "build_rnns output_size ((rnn_class, hsize, lnum, bi) # rest) =
     (let rnn = \<lparr>rnn_class_of = rnn_class, input_size = output_size, hidden_size = hsize,
                 num_layers = lnum, bidir = bi\<rparr>;
          (rnns, out) = build_rnns (if bi then hsize * 2 else hsize) rest
      in (rnn # rnns, out))"

definition initialize_rnn ::
  "int \<Rightarrow> rnn_class param \<Rightarrow> int param \<Rightarrow> int param \<Rightarrow> bool param
     \<Rightarrow> error + (rnn_spec list \<times> int)" where
  "initialize_rnn embedding_size cs hs ns bs =
     (let c = homogenize_parameters cs hs ns bs in
      case validate_parameters c of
        Inl e \<Rightarrow> Inl e
      | Inr _ \<Rightarrow>
          Inr (build_rnns embedding_size
                 (zip (rnn_classes c)
                    (zip (rnn_hidden_sizes c) (zip (num_rnn_layers c) (bidirectional c))))))"

subsection \<open>Running the cascade: \<^verbatim>\<open>_run_rnns\<close>\<close>

text \<open>
  A stage as the forward pass sees it: its class, and what the library's module returns
  (\<^verbatim>\<open>h_all\<close> and \<^verbatim>\<open>h_last\<close>) when it is called with the inputs and a
  structure (a tree stage), with the packed inputs and their lengths, the result padded
  again (a chain stage whose lengths are known), or with the inputs alone.
\<close>

record ('x, 's) rnn =
  cls :: rnn_class
  call_tree :: "'x \<Rightarrow> 's \<Rightarrow> 'x \<times> 'x"
  call_packed :: "'x \<Rightarrow> int list \<Rightarrow> 'x \<times> 'x"
  call_plain :: "'x \<Rightarrow> 'x \<times> 'x"

text \<open>The three branches of the loop body.\<close>

definition run_rnn ::
  "('x, 's) rnn \<Rightarrow> 'x \<Rightarrow> 's \<Rightarrow> int list option \<Rightarrow> 'x \<times> 'x" where
  "run_rnn rnn inputs structure lengths =
     (if cls rnn = ChildSumTreeLSTM then call_tree rnn inputs structure
      else (case lengths of
              Some ls \<Rightarrow> if cls rnn = LSTM then call_packed rnn inputs ls
                         else call_plain rnn inputs
            | None \<Rightarrow> call_plain rnn inputs))"

text \<open>
  The loop over the pairs of a stage and a structure. \<open>sq\<close> is the tensor's
  \<^verbatim>\<open>squeeze\<close>; the last argument holds \<^verbatim>\<open>h_all, h_last\<close> once they are bound.
\<close>

fun run_rnns_loop ::
  "('x \<Rightarrow> 'x) \<Rightarrow> int list option \<Rightarrow> (('x, 's) rnn \<times> 's) list \<Rightarrow> 'x
     \<Rightarrow> ('x \<times> 'x) option \<Rightarrow> ('x \<times> 'x) option" where
  "run_rnns_loop sq lengths [] inputs res = res"
| "run_rnns_loop sq lengths ((rnn, structure) # rest) inputs res =
     (case run_rnn rnn inputs structure lengths of
        (h_all, h_last) \<Rightarrow> run_rnns_loop sq lengths rest (sq h_all) (Some (h_all, h_last)))"

text \<open>
  \<^verbatim>\<open>for rnn, structure in zip(self.rnns, [structures])\<close>: the stages are zipped with
  the one-element list \<^verbatim>\<open>[structures]\<close>. With no stage, \<^verbatim>\<open>h_all\<close> is unbound at
  the \<^verbatim>\<open>return\<close>.
\<close>

definition run_rnns ::
  "('x \<Rightarrow> 'x) \<Rightarrow> ('x, 's) rnn list \<Rightarrow> 'x \<Rightarrow> 's \<Rightarrow> int list option
     \<Rightarrow> error + ('x \<times> 'x)" where
  "run_rnns sq rnns inputs structures lengths =
     (case run_rnns_loop sq lengths (zip rnns [structures]) inputs None of
        None \<Rightarrow> Inl UnboundLocalError
      | Some r \<Rightarrow> Inr r)"

subsection \<open>Dictionaries\<close>

text \<open>
  A Python dictionary as an association list in insertion order: assigning to a key that
  is present replaces its value in place, a new key goes to the end; reading a missing key
  raises \<^verbatim>\<open>KeyError\<close>.
\<close>

fun dict_set :: "('k \<times> 'v) list \<Rightarrow> 'k \<Rightarrow> 'v \<Rightarrow> ('k \<times> 'v) list" where
  "dict_set [] k v = [(k, v)]"
| "dict_set ((k', v') # d) k v = (if k' = k then (k, v) # d else (k', v') # dict_set d k v)"

fun dict_get :: "('k \<times> 'v) list \<Rightarrow> 'k \<Rightarrow> error + 'v" where
  "dict_get [] k = Inl KeyError"
| "dict_get ((k', v') # d) k = (if k' = k then Inr v' else dict_get d k)"

subsection \<open>The regression heads: \<^verbatim>\<open>_initialize_regression\<close>, \<^verbatim>\<open>_run_regression\<close>\<close>

text \<open>An affine layer \<^verbatim>\<open>torch.nn.Linear(in_features, out_features)\<close>, by its sizes.\<close>

record linear =
  in_features :: int
  out_features :: int

text \<open>
  The inner loop \<^verbatim>\<open>for i, h in enumerate(hidden_sizes)\<close>: one layer per hidden size,
  \<^verbatim>\<open>last_size\<close> set to the size just used. It returns the layers and the final
  \<^verbatim>\<open>last_size\<close>.
\<close>

fun hidden_layers :: "int \<Rightarrow> int list \<Rightarrow> linear list \<times> int" where
  "hidden_layers last_size [] = ([], last_size)"
| "hidden_layers last_size (h # hs) =
     (case hidden_layers h hs of
        (layers, final_size) \<Rightarrow>
          (\<lparr>in_features = last_size, out_features = h\<rparr> # layers, final_size))"

text \<open>
  The outer loop \<^verbatim>\<open>for attr in self.attributes\<close>. \<^verbatim>\<open>last_size\<close> is assigned
  before the loop and not again at the start of an iteration, so it is threaded from one
  attribute to the next.
\<close>

fun init_linear_maps ::
  "int list \<Rightarrow> int \<Rightarrow> string list \<Rightarrow> int \<Rightarrow> (string \<times> linear list) list
     \<Rightarrow> (string \<times> linear list) list" where
  "init_linear_maps hidden_sizes output_size [] last_size linear_maps = linear_maps"
| "init_linear_maps hidden_sizes output_size (attr # attrs) last_size linear_maps =
     (case hidden_layers last_size hidden_sizes of
        (layers, final_size) \<Rightarrow>
          init_linear_maps hidden_sizes output_size attrs final_size
            (dict_set linear_maps attr
               (layers @ [\<lparr>in_features = final_size, out_features = output_size\<rparr>])))"

text \<open>
  The attention parameter: \<^verbatim>\<open>torch.zeros(batch_size, last_size)\<close> when the first
  stage is an LSTM, \<^verbatim>\<open>torch.zeros(last_size)\<close> otherwise.
\<close>

datatype attention_map = AttMat "real list list" | AttVec "real list"

record regression =
  attributes :: "string list"
  linear_maps :: "(string \<times> linear list) list"
  attention :: bool
  attention_map :: "attention_map option"

definition init_attention_map ::
  "rnn_class list \<Rightarrow> int \<Rightarrow> int \<Rightarrow> error + attention_map" where
  "init_attention_map stage_classes batch_size last_size =
     (case stage_classes of
        [] \<Rightarrow> Inl IndexError
      | c # _ \<Rightarrow>
          if c = LSTM
          then (if batch_size < 0 \<or> last_size < 0 then Inl RuntimeError
                else Inr (AttMat (replicate (nat batch_size) (replicate (nat last_size) 0))))
          else (if last_size < 0 then Inl RuntimeError
                else Inr (AttVec (replicate (nat last_size) 0))))"

definition initialize_regression ::
  "rnn_class list \<Rightarrow> int \<Rightarrow> int \<Rightarrow> bool \<Rightarrow> int list \<Rightarrow> int \<Rightarrow> string list
     \<Rightarrow> error + regression" where
  "initialize_regression stage_classes rnn_output_size batch_size att hidden_sizes
       output_size attrs =
     (let maps = init_linear_maps hidden_sizes output_size attrs rnn_output_size [] in
      if att
      then (case init_attention_map stage_classes batch_size rnn_output_size of
              Inl e \<Rightarrow> Inl e
            | Inr am \<Rightarrow>
                Inr \<lparr>attributes = attrs, linear_maps = maps, attention = True,
                     attention_map = Some am\<rparr>)
      else Inr \<lparr>attributes = attrs, linear_maps = maps, attention = False,
                attention_map = None\<rparr>)"

text \<open>
  \<^verbatim>\<open>for i, linear_map in enumerate(self.linear_maps[attr])\<close>: the nonlinearity is
  applied before every layer but the first (\<^verbatim>\<open>if i:\<close>). \<open>app\<close> is the library's
  application of an affine layer, \<open>relu\<close> is \<^verbatim>\<open>F.relu\<close>.
\<close>

fun run_layers ::
  "(linear \<Rightarrow> 'v \<Rightarrow> 'v) \<Rightarrow> ('v \<Rightarrow> 'v) \<Rightarrow> nat \<Rightarrow> linear list \<Rightarrow> 'v \<Rightarrow> 'v" where
  "run_layers app relu i [] h = h"
| "run_layers app relu i (linear_map # rest) h =
     run_layers app relu (Suc i) rest (app linear_map (if i \<noteq> 0 then relu h else h))"

fun run_regression_loop ::
  "(linear \<Rightarrow> 'v \<Rightarrow> 'v) \<Rightarrow> ('v \<Rightarrow> 'v) \<Rightarrow> (string \<times> linear list) list \<Rightarrow> 'v
     \<Rightarrow> string list \<Rightarrow> (string \<times> 'v) list \<Rightarrow> error + (string \<times> 'v) list" where
  "run_regression_loop app relu maps h_in [] h_last = Inr h_last"
| "run_regression_loop app relu maps h_in (attr # attrs) h_last =
     (case dict_get maps attr of
        Inl e \<Rightarrow> Inl e
      | Inr layers \<Rightarrow>
          run_regression_loop app relu maps h_in attrs
            (dict_set h_last attr (run_layers app relu 0 layers h_in)))"

definition run_regression ::
  "(linear \<Rightarrow> 'v \<Rightarrow> 'v) \<Rightarrow> ('v \<Rightarrow> 'v) \<Rightarrow> regression \<Rightarrow> 'v
     \<Rightarrow> error + (string \<times> 'v) list" where
  "run_regression app relu reg h_in =
     run_regression_loop app relu (linear_maps reg) h_in (attributes reg) []"

subsection \<open>Tensors of rank at most three\<close>

text \<open>
  A tensor of rank 0, 1, 2 or 3 as a scalar or nested lists. All rows of a tensor have
  the same length; a dimension after an empty one reads as 0.
\<close>

datatype 'a tensor = T0 'a | T1 "'a list" | T2 "'a list list" | T3 "'a list list list"

definition dim1 :: "'a list list \<Rightarrow> nat" where
  "dim1 rows = (case rows of [] \<Rightarrow> 0 | r # _ \<Rightarrow> length r)"

definition dim2 :: "'a list list list \<Rightarrow> nat" where
  "dim2 ms = (case ms of [] \<Rightarrow> 0 | m # _ \<Rightarrow> dim1 m)"

text \<open>\<^verbatim>\<open>squeeze()\<close> removes every dimension of size one.\<close>

definition squeeze1 :: "'a list \<Rightarrow> 'a tensor" where
  "squeeze1 xs = (case xs of [x] \<Rightarrow> T0 x | _ \<Rightarrow> T1 xs)"

definition squeeze2 :: "'a list list \<Rightarrow> 'a tensor" where
  "squeeze2 rows =
     (case rows of
        [r] \<Rightarrow> squeeze1 r
      | _ \<Rightarrow> if dim1 rows = 1 then T1 (map hd rows) else T2 rows)"

definition squeeze3 :: "'a list list list \<Rightarrow> 'a tensor" where
  "squeeze3 ms =
     (case ms of
        [m] \<Rightarrow> squeeze2 m
      | _ \<Rightarrow>
          if dim1 ms = 1
          then (if dim2 ms = 1 then T1 (map (\<lambda>m. hd (hd m)) ms) else T2 (map hd ms))
          else if dim2 ms = 1 then T2 (map (map hd) ms)
          else T3 ms)"

fun squeeze :: "'a tensor \<Rightarrow> 'a tensor" where
  "squeeze (T0 x) = T0 x"
| "squeeze (T1 xs) = squeeze1 xs"
| "squeeze (T2 rows) = squeeze2 rows"
| "squeeze (T3 ms) = squeeze3 ms"

subsection \<open>Attention: \<^verbatim>\<open>_run_attention\<close>\<close>

definition dot :: "real list \<Rightarrow> real list \<Rightarrow> real" where
  "dot xs ys = sum_list (map (\<lambda>(x, y). x * y) (zip xs ys))"

text \<open>
  \<^verbatim>\<open>torch.mm(h_all, v[:, None])\<close> of a \<open>T \<times> d\<close> matrix and a vector of length
  \<open>d\<close>, a \<open>T \<times> 1\<close> matrix; the library refuses sizes that do not match.
\<close>

definition mm_col :: "real list list \<Rightarrow> real list \<Rightarrow> error + real list list" where
  "mm_col h v =
     (if list_all (\<lambda>r. length r = length v) h then Inr (map (\<lambda>r. [dot r v]) h)
      else Inl RuntimeError)"

text \<open>
  \<^verbatim>\<open>torch.bmm(h_all, a[:, :, None])\<close> of a \<open>B \<times> T \<times> d\<close> tensor and a
  \<open>B \<times> d\<close> matrix: one matrix product per example.
\<close>

definition bmm_col ::
  "real list list list \<Rightarrow> real list list \<Rightarrow> error + real list list list" where
  "bmm_col h a =
     (if length h = length a then map_err (\<lambda>(m, v). mm_col m v) (zip h a)
      else Inl RuntimeError)"

text \<open>\<^verbatim>\<open>torch.mm(att[None, :], h_all)\<close>: the sum of the rows of \<open>h\<close>, weighted.\<close>

definition weighted_sum :: "real list \<Rightarrow> real list list \<Rightarrow> error + real list" where
  "weighted_sum att h =
     (if length att = length h
      then Inr (map (\<lambda>j. sum_list (map (\<lambda>(w, r). w * r ! j) (zip att h))) [0..<dim1 h])
      else Inl RuntimeError)"

text \<open>
  \<^verbatim>\<open>F.softmax(x, dim=0)\<close>: every entry's exponential divided by the sum of the
  exponentials of the entries that differ from it in the first index only.
\<close>

fun softmax0 :: "real tensor \<Rightarrow> real tensor" where
  "softmax0 (T0 x) = T0 (exp x / exp x)"
| "softmax0 (T1 xs) = T1 (map (\<lambda>x. exp x / sum_list (map exp xs)) xs)"
| "softmax0 (T2 rows) =
     T2 (map (\<lambda>r. map (\<lambda>j. exp (r ! j) / sum_list (map (\<lambda>r'. exp (r' ! j)) rows))
                  [0..<length r]) rows)"
| "softmax0 (T3 ms) =
     T3 (map (\<lambda>m. map (\<lambda>i. map (\<lambda>j. exp (m ! i ! j)
                                     / sum_list (map (\<lambda>m'. exp (m' ! i ! j)) ms))
                             [0..<length (m ! i)]) [0..<length m]) ms)"

text \<open>
  The two branches. Without a batch dimension \<^verbatim>\<open>torch.mm\<close> needs a matrix and the
  one-dimensional parameter; with one, \<^verbatim>\<open>torch.bmm\<close> needs a rank-3 tensor and the
  two-dimensional parameter (indexing the vector with \<^verbatim>\<open>[:, :, None]\<close> is an
  \<^verbatim>\<open>IndexError\<close>). Both normalise with \<^verbatim>\<open>dim=0\<close> after the squeeze. The
  weighted sums index the weights as a vector (\<^verbatim>\<open>att[None, :]\<close>) or as a matrix
  (\<^verbatim>\<open>att[:, None, :]\<close>), an \<^verbatim>\<open>IndexError\<close> for a tensor of lower rank.
\<close>

definition run_attention ::
  "bool \<Rightarrow> attention_map \<Rightarrow> real tensor \<Rightarrow> bool \<Rightarrow> error + real tensor" where
  "run_attention has_batch_dim amap h_all return_weights =
     (if \<not> has_batch_dim
      then (case (h_all, amap) of
              (T2 h, AttVec v) \<Rightarrow>
                (case mm_col h v of
                   Inl e \<Rightarrow> Inl e
                 | Inr att_raw \<Rightarrow>
                     let att = softmax0 (squeeze2 att_raw) in
                     if return_weights then Inr att
                     else (case att of
                             T1 ws \<Rightarrow>
                               (case weighted_sum ws h of
                                  Inl e \<Rightarrow> Inl e
                                | Inr s \<Rightarrow> Inr (squeeze2 [s]))
                           | _ \<Rightarrow> Inl IndexError))
            | _ \<Rightarrow> Inl RuntimeError)
      else (case amap of
              AttVec v \<Rightarrow> Inl IndexError
            | AttMat a \<Rightarrow>
                (case h_all of
                   T3 h \<Rightarrow>
                     (case bmm_col h a of
                        Inl e \<Rightarrow> Inl e
                      | Inr att_raw \<Rightarrow>
                          let att = softmax0 (squeeze3 att_raw) in
                          if return_weights then Inr att
                          else (case att of
                                  T2 ws \<Rightarrow>
                                    (case map_err (\<lambda>(w, m). weighted_sum w m) (zip ws h) of
                                       Inl e \<Rightarrow> Inl e
                                     | Inr s \<Rightarrow> Inr (squeeze3 (map (\<lambda>r. [r]) s)))
                                | _ \<Rightarrow> Inl IndexError))
                 | _ \<Rightarrow> Inl RuntimeError)))"

subsection \<open>The timestep selector: \<^verbatim>\<open>choose_timestep\<close>\<close>

text \<open>
  \<^verbatim>\<open>(idxs - 1).view(-1, 1).expand(output.size(0), output.size(2))\<close>: one index per
  example, repeated along the feature dimension. \<^verbatim>\<open>expand\<close> accepts as many indices
  as there are examples, or a single one, which it repeats. The result is kept as one index
  per row.
\<close>

definition expand_idx :: "int list \<Rightarrow> nat \<Rightarrow> error + int list" where
  "expand_idx idx b =
     (if length idx = b then Inr idx
      else (case idx of [i] \<Rightarrow> Inr (replicate b i) | _ \<Rightarrow> Inl RuntimeError))"

text \<open>
  \<^verbatim>\<open>output.gather(1, idx)\<close> for one example: entry \<open>d\<close> of the result is
  \<open>output[b][idx[b][0][d]][d]\<close>; an index outside \<open>[0, max_len)\<close> is refused.
\<close>

definition gather_row :: "'a list list \<Rightarrow> int \<Rightarrow> nat \<Rightarrow> error + 'a list list" where
  "gather_row seq i d =
     (if 0 \<le> i \<and> i < int (length seq) then Inr [map (\<lambda>j. seq ! nat i ! j) [0..<d]]
      else Inl RuntimeError)"

definition choose_timestep :: "'a list list list \<Rightarrow> int list \<Rightarrow> error + 'a tensor" where
  "choose_timestep output idxs =
     (case expand_idx (map (\<lambda>l. l - 1) idxs) (length output) of
        Inl e \<Rightarrow> Inl e
      | Inr idx \<Rightarrow>
          (case map_err (\<lambda>(seq, i). gather_row seq i (dim2 output)) (zip output idx) of
             Inl e \<Rightarrow> Inl e
           | Inr g \<Rightarrow> Inr (squeeze3 g)))"

subsection \<open>The embedding table: \<^verbatim>\<open>_initialize_embeddings\<close>, \<^verbatim>\<open>_get_inputs\<close>\<close>


record 'a parameter =
  data :: "'a list list"
  requires_grad :: bool

record 'a embedding_table =
  vocab :: "string list"
  num_embeddings :: nat
  embedding_size :: nat
  weight :: "'a parameter"
  vocab_hash :: "(string \<times> nat) list"






text \<open>
  The words handed to \<^verbatim>\<open>_get_inputs\<close>: a sequence of strings, or a sequence of such
  sequences. Iterating over a string yields its characters, each a string of length one.
\<close>

datatype words = Flat "string list" | Batched "string list list"

fun sentences :: "words \<Rightarrow> string list list" where
  "sentences (Batched ss) = ss"
| "sentences (Flat ws) = map (map (\<lambda>c. [c])) ws"

text \<open>\<^verbatim>\<open>self.embeddings(indices)\<close> for one index.\<close>

definition embed_index :: "'a embedding_table \<Rightarrow> nat \<Rightarrow> error + 'a list" where
  "embed_index e i =
     (if i < length (data (weight e)) then Inr (data (weight e) ! i) else Inl IndexError)"

text \<open>
  \<^verbatim>\<open>has_batch_dim\<close> is an attribute that only \<^verbatim>\<open>forward\<close> sets. With it, every
  element of the input is iterated as a sentence; without it, every element is looked up
  as a word (a list is not hashable). \<^verbatim>\<open>torch.tensor\<close> refuses rows of different
  lengths.
\<close>

definition get_inputs ::
  "bool option \<Rightarrow> 'a embedding_table \<Rightarrow> words \<Rightarrow> error + 'a tensor" where
  "get_inputs has_batch e inputs =
     (case has_batch of
        None \<Rightarrow> Inl AttributeError
      | Some True \<Rightarrow>
          (case map_err (map_err (dict_get (vocab_hash e))) (sentences inputs) of
             Inl err \<Rightarrow> Inl err
           | Inr indices \<Rightarrow>
               if list_all (\<lambda>r. length r = dim1 indices) indices
               then (case map_err (map_err (embed_index e)) indices of
                       Inl err \<Rightarrow> Inl err
                     | Inr rows \<Rightarrow> Inr (if rows = [] then T2 [] else T3 rows))
               else Inl ValueError)
      | Some False \<Rightarrow>
          (case inputs of
             Batched (s # ss) \<Rightarrow> Inl TypeError
           | Batched [] \<Rightarrow> Inr (T2 [])
           | Flat ws \<Rightarrow>
               (case map_err (dict_get (vocab_hash e)) ws of
                  Inl err \<Rightarrow> Inl err
                | Inr indices \<Rightarrow>
                    (case map_err (embed_index e) indices of
                       Inl err \<Rightarrow> Inl err
                     | Inr rows \<Rightarrow> Inr (T2 rows)))))"

subsection \<open>The module and its optimizer\<close>

text \<open>
  The module as the trainer uses it: the embedding table, the other registered parameters
  (those of the stages, the attention parameter, those of the regression heads) in the
  order of registration after the embedding weight, whether attention is on, and
  \<^verbatim>\<open>has_batch_dim\<close> once \<^verbatim>\<open>forward\<close> has set it.
\<close>

record 'a rnn_regression =
  embeddings :: "'a embedding_table"
  other_parameters :: "'a parameter list"
  attention_on :: bool
  has_batch_dim :: "bool option"






subsection \<open>Attention weights of the trained model: \<^verbatim>\<open>attention_weights\<close>\<close>

text \<open>
  A structure either has a \<^verbatim>\<open>words()\<close> method, or is itself a sequence of strings, or
  is a sequence with an element that is not a string.
\<close>

datatype "structure" = HasWords "string list" | WordSeq "string list" | OtherSeq

text \<open>
  \<^verbatim>\<open>RNNRegression.attention_weights(structures)\<close>. \<^verbatim>\<open>assert self.attention\<close> is
  guarded by \<^verbatim>\<open>except AttributeError\<close> only; the assertion about the strings is raised
  inside a handler. The call \<^verbatim>\<open>self._run_rnns(inputs, structures)\<close> leaves out
  \<^verbatim>\<open>lengths\<close>, which \<^verbatim>\<open>_run_rnns\<close> requires: a \<^verbatim>\<open>TypeError\<close>.
\<close>

definition attention_weights :: "real rnn_regression \<Rightarrow> structure list \<Rightarrow> error + real tensor" where
  "attention_weights m structures =
     (if \<not> attention_on m then Inl AssertionError
      else (case structures of
              [] \<Rightarrow> Inl IndexError
            | s # _ \<Rightarrow>
                (case (case s of
                         HasWords ws \<Rightarrow> Inr ws
                       | WordSeq ws \<Rightarrow> Inr ws
                       | OtherSeq \<Rightarrow> Inl AssertionError) of
                   Inl err \<Rightarrow> Inl err
                 | Inr ws \<Rightarrow>
                     (case get_inputs (has_batch_dim m) (embeddings m) (Flat ws) of
                        Inl err \<Rightarrow> Inl err
                      | Inr inputs \<Rightarrow> Inl TypeError))))"

text \<open>\<^verbatim>\<open>zip(*X)\<close>: the columns of \<open>X\<close>, as many as its shortest row has entries.\<close>

definition zip_star :: "'a list list \<Rightarrow> 'a list list" where
  "zip_star X =
     (case X of
        [] \<Rightarrow> []
      | r # rs \<Rightarrow> map (\<lambda>i. map (\<lambda>row. row ! i) X) [0..<fold min (map length rs) (length r)])"

text \<open>\<^verbatim>\<open>RNNRegressionTrainer.attention_weights(X)\<close>\<close>

definition trainer_attention_weights ::
  "real rnn_regression \<Rightarrow> structure list list \<Rightarrow> error + real tensor list" where
  "trainer_attention_weights m X = map_err (attention_weights m) (zip_star X)"

subsection \<open>The trainer: \<^verbatim>\<open>fit\<close> and \<^verbatim>\<open>predict\<close>\<close>

record trainer =
  epochs :: int
  trainer_attributes :: "string list"
  trainer_rnn_classes :: "rnn_class param"
  is_continuous :: bool

text \<open>
  One entry of \<^verbatim>\<open>lengths\<close>, what the caller gives for one batch: a number or a
  sequence of numbers. \<^verbatim>\<open>torch.tensor\<close> makes a tensor of either; only a sequence
  can be iterated, as \<^verbatim>\<open>zip\<close> does with its arguments.
\<close>

datatype lengths_entry = Length int | Lengths "int list"

fun iter_items :: "lengths_entry \<Rightarrow> error + int list" where
  "iter_items (Length n) = Inl TypeError"
| "iter_items (Lengths ns) = Inr ns"

text \<open>
  What \<^verbatim>\<open>fit\<close> calls and does not define: the construction of the module
  (\<^verbatim>\<open>_initialize_trainer_regression\<close>) and of its optimizer, the module's forward
  pass on a batch of structures, the tensor of their lengths and a mode, giving the
  predictions of every attribute, the loss function, the parameters after \<^verbatim>\<open>loss.backward()\<close> and \<^verbatim>\<open>optimizer.step()\<close>,
  \<^verbatim>\<open>pearsonr\<close>, and the report \<^verbatim>\<open>_print_metric\<close> of the three traces.
\<close>

record ('p, 's) library =
  init_regression :: "error + 'p"
  forward ::
    "'p \<Rightarrow> 's list \<Rightarrow> lengths_entry \<Rightarrow> string \<Rightarrow> error + (string \<times> real list) list"
  loss_function :: "real list \<Rightarrow> real list \<Rightarrow> real"
  backward_step :: "'p \<Rightarrow> real \<Rightarrow> 'p"
  pearsonr :: "real list \<Rightarrow> real list \<Rightarrow> error + real"
  print_metric ::
    "real list \<Rightarrow> (string \<times> real list) list \<Rightarrow> (string \<times> real list) list \<Rightarrow> error + unit"

text \<open>
  The arguments of \<^verbatim>\<open>fit\<close>: the batches of structures, the targets of every
  attribute by batch, the lengths by batch, the held-out set, and the verbosity.
\<close>

record 's fit_args =
  fit_X :: "'s list list"
  fit_Y :: "(string \<times> real list list) list"
  fit_lengths :: "lengths_entry list"
  dev_x :: "'s list list"
  dev_y :: "(string \<times> real list list) list"
  dev_lengths :: "lengths_entry list"
  verbosity :: int

text \<open>
  \<^verbatim>\<open>losses\<close> is a list at the start of an epoch and a dictionary once the chain
  branch has assigned it; \<^verbatim>\<open>early_stop\<close> is a dictionary until the loop over the
  attributes has replaced it by \<^verbatim>\<open>[0.0]\<close>.
\<close>

datatype loss_store = LossList "real list" | LossDict "(string \<times> real) list"

datatype early_stop = StopDict | StopList "real list"

record 'p fit_state =
  model :: 'p
  steps :: nat
  loss_trace :: "real list"
  targ_trace :: "(string \<times> real list) list"
  pred_trace :: "(string \<times> real list) list"
  losses :: loss_store

text \<open>\<^verbatim>\<open>{attr: np.array([])}\<close> for every attribute.\<close>

definition empty_traces :: "string list \<Rightarrow> (string \<times> real list) list" where
  "empty_traces attrs = fold (\<lambda>attr d. dict_set d attr []) attrs []"

text \<open>\<^verbatim>\<open>trace[attr] = np.append(trace[attr], xs)\<close>\<close>

definition trace_append ::
  "(string \<times> real list) list \<Rightarrow> string \<Rightarrow> real list \<Rightarrow> error + (string \<times> real list) list" where
  "trace_append trace attr xs =
     (case dict_get trace attr of
        Inl e \<Rightarrow> Inl e
      | Inr old \<Rightarrow> Inr (dict_set trace attr (old @ xs)))"

text \<open>The methods a value does not have: a dictionary's \<^verbatim>\<open>append\<close>, a list's \<^verbatim>\<open>values\<close>.\<close>

definition dict_append :: "('k \<times> 'v) list \<Rightarrow> 'w \<Rightarrow> error + ('k \<times> 'v) list" where
  "dict_append d x = Inl AttributeError"

fun loss_values :: "loss_store \<Rightarrow> error + real list" where
  "loss_values (LossDict d) = Inr (map snd d)"
| "loss_values (LossList l) = Inl AttributeError"

fun early_append :: "early_stop \<Rightarrow> real \<Rightarrow> error + early_stop" where
  "early_append StopDict x = Inl AttributeError"
| "early_append (StopList xs) x = Inr (StopList (xs @ [x]))"

text \<open>
  The chain branch, first loop: the targets of batch \<open>i\<close> for every attribute, each
  appended to the attribute's target trace.
\<close>

fun collect_targets ::
  "(string \<times> real list list) list \<Rightarrow> nat \<Rightarrow> string list \<Rightarrow> (string \<times> real list) list
     \<Rightarrow> (string \<times> real list) list
     \<Rightarrow> error + ((string \<times> real list) list \<times> (string \<times> real list) list)" where
  "collect_targets Y i [] targs trace = Inr (targs, trace)"
| "collect_targets Y i (attr # attrs) targs trace =
     (case dict_get Y attr of
        Inl e \<Rightarrow> Inl e
      | Inr batches \<Rightarrow>
          if i < length batches
          then (case trace_append trace attr (batches ! i) of
                  Inl e \<Rightarrow> Inl e
                | Inr trace' \<Rightarrow>
                    collect_targets Y i attrs (dict_set targs attr (batches ! i)) trace')
          else Inl IndexError)"

text \<open>Second loop: the loss of every attribute, its predictions appended to the trace.\<close>

fun collect_losses ::
  "(real list \<Rightarrow> real list \<Rightarrow> real) \<Rightarrow> (string \<times> real list) list
     \<Rightarrow> (string \<times> real list) list \<Rightarrow> string list \<Rightarrow> (string \<times> real) list
     \<Rightarrow> (string \<times> real list) list
     \<Rightarrow> error + ((string \<times> real) list \<times> (string \<times> real list) list)" where
  "collect_losses lf predicted targs [] ls trace = Inr (ls, trace)"
| "collect_losses lf predicted targs (attr # attrs) ls trace =
     (case dict_get predicted attr of
        Inl e \<Rightarrow> Inl e
      | Inr p \<Rightarrow>
          (case dict_get targs attr of
             Inl e \<Rightarrow> Inl e
           | Inr t \<Rightarrow>
               (case trace_append trace attr p of
                  Inl e \<Rightarrow> Inl e
                | Inr trace' \<Rightarrow>
                    collect_losses lf predicted targs attrs (dict_set ls attr (lf p t))
                      trace')))"

definition lstm_branch ::
  "('p, 's) library \<Rightarrow> trainer \<Rightarrow> 's fit_args \<Rightarrow> 'p fit_state \<Rightarrow> nat \<Rightarrow> 's list
     \<Rightarrow> lengths_entry \<Rightarrow> error + 'p fit_state" where
  "lstm_branch lib tr args st i structs lens =
     (case collect_targets (fit_Y args) i (trainer_attributes tr) [] (targ_trace st) of
        Inl e \<Rightarrow> Inl e
      | Inr (targs, tt) \<Rightarrow>
          (case forward lib (model st) structs lens ''train'' of
             Inl e \<Rightarrow> Inl e
           | Inr predicted \<Rightarrow>
               (case collect_losses (loss_function lib) predicted targs
                       (trainer_attributes tr) [] (pred_trace st) of
                  Inl e \<Rightarrow> Inl e
                | Inr (ls, pt) \<Rightarrow>
                    Inr (st\<lparr>targ_trace := tt, pred_trace := pt, losses := LossDict ls\<rparr>))))"

text \<open>
  The other branch, over \<^verbatim>\<open>list(zip(batch[0], batch[1]))\<close>, which iterates the
  entry of \<^verbatim>\<open>lengths\<close> before the loop starts. The first statement of the loop
  body is \<^verbatim>\<open>targ_trace.append(targ)\<close> on the dictionary of traces; were it to
  return, \<^verbatim>\<open>self._regression(struct, targ)\<close> lacks two arguments of \<^verbatim>\<open>forward\<close>.
\<close>

fun tree_examples ::
  "(string \<times> real list) list \<Rightarrow> ('s \<times> int) list \<Rightarrow> error + (string \<times> real list) list" where
  "tree_examples trace [] = Inr trace"
| "tree_examples trace ((struct, targ) # rest) =
     (case dict_append trace targ of
        Inl e \<Rightarrow> Inl e
      | Inr trace' \<Rightarrow> Inl TypeError)"

definition tree_branch ::
  "'p fit_state \<Rightarrow> 's list \<Rightarrow> lengths_entry \<Rightarrow> error + 'p fit_state" where
  "tree_branch st structs lens =
     (case iter_items lens of
        Inl e \<Rightarrow> Inl e
      | Inr targs \<Rightarrow>
          (case tree_examples (targ_trace st) (zip structs targs) of
             Inl e \<Rightarrow> Inl e
           | Inr tt \<Rightarrow> Inr (st\<lparr>targ_trace := tt\<rparr>)))"

text \<open>
  One batch: the branch, the mean of the losses, the gradient step, and every
  \<^verbatim>\<open>verbosity\<close> batches the report and the reset of the traces. An exception comes
  with the number of gradient steps completed when it is raised.
\<close>

definition train_batch ::
  "('p, 's) library \<Rightarrow> trainer \<Rightarrow> 's fit_args \<Rightarrow> 'p fit_state \<Rightarrow> nat \<Rightarrow> 's list
     \<Rightarrow> lengths_entry \<Rightarrow> (error \<times> nat) + 'p fit_state" where
  "train_batch lib tr args st i structs lens =
     (case (if trainer_rnn_classes tr = Scalar LSTM
            then lstm_branch lib tr args st i structs lens
            else tree_branch st structs lens) of
        Inl e \<Rightarrow> Inl (e, steps st)
      | Inr st1 \<Rightarrow>
          (case loss_values (losses st1) of
             Inl e \<Rightarrow> Inl (e, steps st)
           | Inr vs \<Rightarrow>
               if vs = [] then Inl (ZeroDivisionError, steps st)
               else (let loss = sum_list vs / real (length vs);
                         st2 = st1\<lparr>loss_trace := loss_trace st1 @ [loss],
                                   model := backward_step lib (model st1) loss,
                                   steps := Suc (steps st1)\<rparr>
                     in if verbosity args \<noteq> 0 \<and> (int i + 1) mod verbosity args = 0
                        then (case print_metric lib (loss_trace st2) (targ_trace st2)
                                     (pred_trace st2) of
                                Inl e \<Rightarrow> Inl (e, steps st2)
                              | Inr u \<Rightarrow>
                                  Inr (st2\<lparr>loss_trace := [],
                                           targ_trace := empty_traces (trainer_attributes tr),
                                           pred_trace := empty_traces (trainer_attributes tr)\<rparr>))
                        else Inr st2)))"

fun train_batches ::
  "('p, 's) library \<Rightarrow> trainer \<Rightarrow> 's fit_args \<Rightarrow> 'p fit_state \<Rightarrow> nat
     \<Rightarrow> ('s list \<times> lengths_entry) list \<Rightarrow> (error \<times> nat) + 'p fit_state" where
  "train_batches lib tr args st i [] = Inr st"
| "train_batches lib tr args st i ((structs, lens) # rest) =
     (case train_batch lib tr args st i structs lens of
        Inl e \<Rightarrow> Inl e
      | Inr st' \<Rightarrow> train_batches lib tr args st' (Suc i) rest)"

text \<open>
  \<^verbatim>\<open>predict\<close>: the predictions of the attribute \<^verbatim>\<open>'acceptability'\<close> over the
  batches, under that one key.
\<close>

fun predict_loop ::
  "('p, 's) library \<Rightarrow> 'p \<Rightarrow> ('s list \<times> lengths_entry) list \<Rightarrow> real list
     \<Rightarrow> error + real list" where
  "predict_loop lib m [] acc = Inr acc"
| "predict_loop lib m ((struct, lens) # rest) acc =
     (case forward lib m struct lens ''dev'' of
        Inl e \<Rightarrow> Inl e
      | Inr out \<Rightarrow>
          (case dict_get out ''acceptability'' of
             Inl e \<Rightarrow> Inl e
           | Inr ys \<Rightarrow> predict_loop lib m rest (acc @ ys)))"

definition predict ::
  "('p, 's) library \<Rightarrow> 'p \<Rightarrow> 's list list \<Rightarrow> lengths_entry list
     \<Rightarrow> error + (string \<times> real list) list" where
  "predict lib m X dlens =
     (case predict_loop lib m (zip X dlens) [] of
        Inl e \<Rightarrow> Inl e
      | Inr acc \<Rightarrow> Inr [(''acceptability'', acc)])"

text \<open>
  Validation. The first loop over the attributes assigns \<^verbatim>\<open>correlation\<close> anew for
  every attribute; the second appends the value it was left with once per attribute.
\<close>

fun correlation_loop ::
  "('p, 's) library \<Rightarrow> (string \<times> real list) list \<Rightarrow> (string \<times> real list list) list
     \<Rightarrow> string list \<Rightarrow> real option \<Rightarrow> error + real option" where
  "correlation_loop lib predictions dy [] correlation = Inr correlation"
| "correlation_loop lib predictions dy (attr # attrs) correlation =
     (case dict_get predictions attr of
        Inl e \<Rightarrow> Inl e
      | Inr outputs \<Rightarrow>
          (case dict_get dy attr of
             Inl e \<Rightarrow> Inl e
           | Inr batches \<Rightarrow>
               (case pearsonr lib outputs (concat batches) of
                  Inl e \<Rightarrow> Inl e
                | Inr c \<Rightarrow> correlation_loop lib predictions dy attrs (Some c))))"

definition validation_corrs ::
  "('p, 's) library \<Rightarrow> trainer \<Rightarrow> 's fit_args \<Rightarrow> 'p \<Rightarrow> error + real list" where
  "validation_corrs lib tr args m =
     (case predict lib m (dev_x args) (dev_lengths args) of
        Inl e \<Rightarrow> Inl e
      | Inr predictions \<Rightarrow>
          (case correlation_loop lib predictions (dev_y args) (trainer_attributes tr) None of
             Inl e \<Rightarrow> Inl e
           | Inr correlation \<Rightarrow>
               Inr (case correlation of
                      None \<Rightarrow> []
                    | Some c \<Rightarrow> map (\<lambda>attr. c) (trainer_attributes tr))))"

definition np_mean :: "real list \<Rightarrow> real" where
  "np_mean xs = sum_list xs / real (length xs)"

text \<open>One epoch up to the correlations: the batches, then the validation.\<close>

definition run_epoch ::
  "('p, 's) library \<Rightarrow> trainer \<Rightarrow> 's fit_args \<Rightarrow> 'p fit_state
     \<Rightarrow> (error \<times> nat) + ('p fit_state \<times> real list)" where
  "run_epoch lib tr args st =
     (case dict_get (fit_Y args) ''acceptability'' of
        Inl e \<Rightarrow> Inl (e, steps st)
      | Inr n_total \<Rightarrow>
          (case train_batches lib tr args (st\<lparr>losses := LossList []\<rparr>) 0
                  (zip (fit_X args) (fit_lengths args)) of
             Inl e \<Rightarrow> Inl e
           | Inr st1 \<Rightarrow>
               (case validation_corrs lib tr args (model st1) of
                  Inl e \<Rightarrow> Inl (e, steps st1)
                | Inr corrs \<Rightarrow> Inr (st1, corrs))))"

text \<open>
  The loop \<^verbatim>\<open>while epoch < self.epochs\<close>. It returns the number of epochs run, the
  early-stopping history and the state.
\<close>

function fit_loop ::
  "('p, 's) library \<Rightarrow> trainer \<Rightarrow> 's fit_args \<Rightarrow> 'p fit_state \<Rightarrow> early_stop \<Rightarrow> int
     \<Rightarrow> (error \<times> nat) + (int \<times> early_stop \<times> 'p fit_state)" where
  "fit_loop lib tr args st es epoch =
     (if epoch < epochs tr
      then (case run_epoch lib tr args st of
              Inl e \<Rightarrow> Inl e
            | Inr (st1, corrs) \<Rightarrow>
                (case early_append es (np_mean corrs) of
                   Inl e \<Rightarrow> Inl (e, steps st1)
                 | Inr es1 \<Rightarrow>
                     (case es1 of
                        StopDict \<Rightarrow> Inl (KeyError, steps st1)
                      | StopList xs \<Rightarrow>
                          if length xs < 2 then Inl (IndexError, steps st1)
                          else if last xs - last (butlast xs) < 0
                          then Inr (epoch + 1, es1, st1)
                          else fit_loop lib tr args st1 es1 (epoch + 1))))
      else Inr (epoch, es, st))"
  by pat_completeness auto
termination
  by (relation "measure (\<lambda>(lib, tr, args, st, es, epoch). nat (epochs tr - epoch))") auto

declare fit_loop.simps [simp del]

text \<open>
  \<^verbatim>\<open>fit\<close>: the module is built, the class frequencies are counted for a categorical
  target (reading \<^verbatim>\<open>self._Y[attr]\<close>), the traces and the history are initialised, and
  the loop runs from epoch 0.
\<close>

definition fit ::
  "('p, 's) library \<Rightarrow> trainer \<Rightarrow> 's fit_args
     \<Rightarrow> (error \<times> nat) + (int \<times> early_stop \<times> 'p fit_state)" where
  "fit lib tr args =
     (case init_regression lib of
        Inl e \<Rightarrow> Inl (e, 0)
      | Inr m \<Rightarrow>
          (case (if is_continuous tr then Inr []
                 else map_err (dict_get (fit_Y args)) (trainer_attributes tr)) of
             Inl e \<Rightarrow> Inl (e, 0)
           | Inr counts \<Rightarrow>
               fit_loop lib tr args
                 \<lparr>model = m, steps = 0, loss_trace = [],
                  targ_trace = empty_traces (trainer_attributes tr),
                  pred_trace = empty_traces (trainer_attributes tr),
                  losses = LossList []\<rparr>
                 (if trainer_attributes tr = [] then StopDict else StopList [0])
                 0))"

text \<open>
  A well-formed \<open>b \<times> t \<times> d\<close> tensor: \<open>b\<close> examples of \<open>t\<close> timesteps
  of \<open>d\<close> features each.
\<close>

definition shape3 :: "'a list list list \<Rightarrow> nat \<Rightarrow> nat \<Rightarrow> nat \<Rightarrow> bool" where
  "shape3 output b t d =
     (length output = b
      \<and> list_all (\<lambda>seq. length seq = t \<and> list_all (\<lambda>v. length v = d) seq) output)"

section \<open>Properties\<close>

lemma fold_max_const: "\<forall>x \<in> set ls. x = (l::nat) \<Longrightarrow> fold max ls l = l"
  by (induction ls) auto

lemma fold_max_ge: "(a::nat) \<le> fold max ls a"
  by (induction ls arbitrary: a) (auto intro: order_trans [OF max.cobounded2])

lemma fold_max_mem_le: "(x::nat) \<in> set ls \<Longrightarrow> x \<le> fold max ls a"
proof (induction ls arbitrary: a)
  case Nil
  then show ?case by simp
next
  case (Cons y ys)
  show ?case
  proof (cases "x = y")
    case True
    have "y \<le> max y a" by simp
    also have "\<dots> \<le> fold max ys (max y a)" by (rule fold_max_ge)
    finally show ?thesis using True by simp
  next
    case False
    with Cons show ?thesis by simp
  qed
qed

lemma length_build_rnns: "length (fst (build_rnns out zs)) = length zs"
  by (induction out zs rule: build_rnns.induct) (auto split: prod.splits)

subsection \<open>Cascade configuration\<close>

lemma max_length_all_eq:
  assumes "L \<in> set (supplied_lengths cs hs ns bs)"
    and "\<forall>l \<in> set (supplied_lengths cs hs ns bs). l = L"
  shows "max_length cs hs ns bs = L"
proof -
  obtain l ls where sl: "supplied_lengths cs hs ns bs = l # ls"
    using assms(1) by (cases "supplied_lengths cs hs ns bs") auto
  with assms(2) have "l = L" "\<forall>x \<in> set ls. x = l" by auto
  then show ?thesis by (simp add: max_length_def sl fold_max_const)
qed

lemma max_length_ge:
  "l \<in> set (supplied_lengths cs hs ns bs) \<Longrightarrow> l \<le> max_length cs hs ns bs"
  by (cases "supplied_lengths cs hs ns bs")
     (auto simp: max_length_def fold_max_ge fold_max_mem_le)

lemma max_length_mem:
  "supplied_lengths cs hs ns bs \<noteq> [] \<Longrightarrow>
   max_length cs hs ns bs \<in> set (supplied_lengths cs hs ns bs)"
proof -
  have fm: "fold max ls (l::nat) \<in> set (l # ls)" for ls l
    by (induction ls arbitrary: l) (auto simp: max_def)
  assume "supplied_lengths cs hs ns bs \<noteq> []"
  then show ?thesis
    using fm by (cases "supplied_lengths cs hs ns bs") (auto simp: max_length_def)
qed

lemma length_broadcast:
  "length (broadcast n p) = (case p of Scalar v \<Rightarrow> n | Iter xs \<Rightarrow> length xs)"
  by (cases p) auto

lemma iter_len_broadcast: "l \<in> set (iter_len p) \<Longrightarrow> length (broadcast n p) = l"
  by (cases p) auto

lemma broadcast_all_eq: "\<forall>l \<in> set (iter_len p). l = n \<Longrightarrow> length (broadcast n p) = n"
  by (cases p) auto

lemma validate_iff:
  "validate_parameters (homogenize_parameters cs hs ns bs) = Inr () \<longleftrightarrow>
   (\<forall>l \<in> set (supplied_lengths cs hs ns bs). l = max_length cs hs ns bs)"
proof -
  define n where "n = max_length cs hs ns bs"
  have val: "validate_parameters (homogenize_parameters cs hs ns bs) = Inr () \<longleftrightarrow>
      length (broadcast n cs) = length (broadcast n hs)
      \<and> length (broadcast n cs) = length (broadcast n ns)
      \<and> length (broadcast n cs) = length (broadcast n bs)"
    unfolding validate_parameters_def homogenize_parameters_def n_def Let_def
    by (simp split: if_splits)
  have sup: "set (supplied_lengths cs hs ns bs) =
      set (iter_len cs) \<union> set (iter_len hs) \<union> set (iter_len ns) \<union> set (iter_len bs)"
    by (simp add: supplied_lengths_def Un_assoc)
  show ?thesis
  proof
    assume "validate_parameters (homogenize_parameters cs hs ns bs) = Inr ()"
    with val have eq: "length (broadcast n hs) = length (broadcast n cs)"
      "length (broadcast n ns) = length (broadcast n cs)"
      "length (broadcast n bs) = length (broadcast n cs)" by simp_all
    have all: "l = length (broadcast n cs)" if "l \<in> set (supplied_lengths cs hs ns bs)" for l
    proof -
      from that sup consider "l \<in> set (iter_len cs)" | "l \<in> set (iter_len hs)"
        | "l \<in> set (iter_len ns)" | "l \<in> set (iter_len bs)" by blast
      then show ?thesis
      proof cases
        case 1 then show ?thesis using iter_len_broadcast [of l cs n] by simp
      next
        case 2 then show ?thesis using iter_len_broadcast [of l hs n] eq by simp
      next
        case 3 then show ?thesis using iter_len_broadcast [of l ns n] eq by simp
      next
        case 4 then show ?thesis using iter_len_broadcast [of l bs n] eq by simp
      qed
    qed
    show "\<forall>l \<in> set (supplied_lengths cs hs ns bs). l = max_length cs hs ns bs"
    proof
      fix l assume l: "l \<in> set (supplied_lengths cs hs ns bs)"
      then have "supplied_lengths cs hs ns bs \<noteq> []" by auto
      then have "n \<in> set (supplied_lengths cs hs ns bs)"
        unfolding n_def by (rule max_length_mem)
      then have "n = length (broadcast n cs)" by (rule all)
      moreover have "l = length (broadcast n cs)" using l by (rule all)
      ultimately show "l = max_length cs hs ns bs" by (simp add: n_def)
    qed
  next
    assume a: "\<forall>l \<in> set (supplied_lengths cs hs ns bs). l = max_length cs hs ns bs"
    have "length (broadcast n cs) = n" "length (broadcast n hs) = n"
      "length (broadcast n ns) = n" "length (broadcast n bs) = n"
      using a sup by (auto intro!: broadcast_all_eq simp: n_def)
    with val show "validate_parameters (homogenize_parameters cs hs ns bs) = Inr ()" by simp
  qed
qed

text \<open>
  Claim C6. When at least one of the four cascade parameters is a list of length
  \<open>L > 1\<close>: if every supplied list has that length, the cascade is built with
  \<open>L\<close> stages and every single-valued parameter repeated \<open>L\<close> times; otherwise
  construction raises \<^verbatim>\<open>ValueError\<close>, and no stage is built.
\<close>

theorem cascade_lengths:
  assumes "L \<in> set (supplied_lengths cs hs ns bs)" and "1 < L"
  shows "if (\<forall>l \<in> set (supplied_lengths cs hs ns bs). l = L)
         then (\<exists>rnns out. initialize_rnn esize cs hs ns bs = Inr (rnns, out)
                 \<and> length rnns = L
                 \<and> homogenize_parameters cs hs ns bs =
                     \<lparr>rnn_classes = broadcast L cs, rnn_hidden_sizes = broadcast L hs,
                      num_rnn_layers = broadcast L ns, bidirectional = broadcast L bs\<rparr>
                 \<and> length (broadcast L cs) = L \<and> length (broadcast L hs) = L
                 \<and> length (broadcast L ns) = L \<and> length (broadcast L bs) = L)
         else initialize_rnn esize cs hs ns bs = Inl ValueError"
proof (cases "\<forall>l \<in> set (supplied_lengths cs hs ns bs). l = L")
  case True
  have ml: "max_length cs hs ns bs = L"
    using assms(1) True by (rule max_length_all_eq)
  have hom: "homogenize_parameters cs hs ns bs =
      \<lparr>rnn_classes = broadcast L cs, rnn_hidden_sizes = broadcast L hs,
       num_rnn_layers = broadcast L ns, bidirectional = broadcast L bs\<rparr>"
    by (simp add: homogenize_parameters_def ml Let_def)
  have val: "validate_parameters (homogenize_parameters cs hs ns bs) = Inr ()"
    using True by (simp add: validate_iff ml)
  have lens: "length (broadcast L cs) = L" "length (broadcast L hs) = L"
    "length (broadcast L ns) = L" "length (broadcast L bs) = L"
    using True by (auto intro!: broadcast_all_eq simp: supplied_lengths_def)
  obtain rnns out where b: "build_rnns esize
      (zip (broadcast L cs) (zip (broadcast L hs) (zip (broadcast L ns) (broadcast L bs))))
      = (rnns, out)" by (cases "build_rnns esize
      (zip (broadcast L cs) (zip (broadcast L hs) (zip (broadcast L ns) (broadcast L bs))))")
  have "length rnns = L"
    using length_build_rnns [of esize
      "zip (broadcast L cs) (zip (broadcast L hs) (zip (broadcast L ns) (broadcast L bs)))"]
    by (simp add: b lens)
  moreover have "initialize_rnn esize cs hs ns bs = Inr (rnns, out)"
    using val b unfolding initialize_rnn_def Let_def by (simp add: hom)
  ultimately show ?thesis using True hom lens by simp
next
  case False
  have "max_length cs hs ns bs \<in> set (supplied_lengths cs hs ns bs)"
    using assms(1) by (intro max_length_mem) auto
  have "\<not> (\<forall>l \<in> set (supplied_lengths cs hs ns bs). l = max_length cs hs ns bs)"
  proof
    assume a: "\<forall>l \<in> set (supplied_lengths cs hs ns bs). l = max_length cs hs ns bs"
    with assms(1) have "L = max_length cs hs ns bs" by blast
    with a False show False by simp
  qed
  then have "validate_parameters (homogenize_parameters cs hs ns bs) \<noteq> Inr ()"
    by (simp add: validate_iff)
  then have "validate_parameters (homogenize_parameters cs hs ns bs) = Inl ValueError"
    unfolding validate_parameters_def by (simp split: if_splits)
  then show ?thesis using False by (simp add: initialize_rnn_def Let_def)
qed

theorem cascade_lengths_witness:
  "initialize_rnn 50 (Iter [LSTM, LSTM]) (Scalar 300) (Iter [1, 2]) (Scalar True)
     = Inr ([\<lparr>rnn_class_of = LSTM, input_size = 50, hidden_size = 300, num_layers = 1, bidir = True\<rparr>,
             \<lparr>rnn_class_of = LSTM, input_size = 600, hidden_size = 300, num_layers = 2, bidir = True\<rparr>], 600)
   \<and> initialize_rnn 50 (Iter [LSTM, LSTM]) (Iter [300, 300, 300]) (Scalar 1) (Scalar True)
     = Inl ValueError"
proof -
  have m: "(2::nat) \<in> set (supplied_lengths (Iter [LSTM, LSTM]) (Scalar 300) (Iter [1, 2]) (Scalar True))"
    by (simp add: supplied_lengths_def)
  have m': "(2::nat) \<in> set (supplied_lengths (Iter [LSTM, LSTM]) (Iter [300, 300, 300]) (Scalar 1) (Scalar True))"
    by (simp add: supplied_lengths_def)
  have one: "(1::nat) < 2" by simp
  show ?thesis
    using cascade_lengths [OF m one, of 50] cascade_lengths [OF m' one, of 50]
    by (simp add: supplied_lengths_def initialize_rnn_def homogenize_parameters_def
        max_length_def validate_parameters_def eval_nat_numeral)
qed

subsection \<open>The cascade at run time\<close>

text \<open>Whatever stages follow the first, the result is that of the first stage alone.\<close>

lemma run_rnns_first_only:
  "run_rnns sq (r # rs) inputs structures lengths = run_rnns sq [r] inputs structures lengths"
  by (simp add: run_rnns_def)

text \<open>
  Claim C1 says that a cascade of \<open>n > 1\<close> stages applies all of them in order. On
  a cascade of two stages, the first adding one to every entry and the second doubling it,
  the forward pass over \<open>[1, 2, 3]\<close> returns \<open>[2, 3, 4]\<close>, the output of the
  first stage: the second stage is never run (a cascade would return \<open>[4, 6, 8]\<close>).
\<close>

theorem cascade_second_stage_skipped:
  "run_rnns id
     [\<lparr>cls = LSTM, call_tree = (\<lambda>x s. (x, x)),
       call_packed = (\<lambda>x ls. (map (\<lambda>v. v + 1) x, x)),
       call_plain = (\<lambda>x. (map (\<lambda>v. v + 1) x, x))\<rparr>,
      \<lparr>cls = LSTM, call_tree = (\<lambda>x s. (x, x)),
       call_packed = (\<lambda>x ls. (map (\<lambda>v. v * 2) x, x)),
       call_plain = (\<lambda>x. (map (\<lambda>v. v * 2) x, x))\<rparr>]
     [1, 2, 3 :: int] () (Some [3])
   = Inr ([2, 3, 4], [1, 2, 3])"
  by (simp add: run_rnns_def run_rnn_def)

subsection \<open>The regression heads\<close>

lemma hidden_layers_out:
  "map out_features (fst (hidden_layers last_size hs)) = hs"
  by (induction last_size hs rule: hidden_layers.induct) (auto split: prod.splits)

lemma hidden_layers_last:
  "snd (hidden_layers last_size hs) = (if hs = [] then last_size else last hs)"
  by (induction last_size hs rule: hidden_layers.induct) (auto split: prod.splits)

text \<open>The head of the first attribute is built as claimed, for any hidden sizes.\<close>

lemma first_head_shape:
  "\<exists>layers. init_linear_maps hs out [a] sz [] = [(a, layers)]
     \<and> length layers = Suc (length hs)
     \<and> map out_features layers = hs @ [out]
     \<and> in_features (hd layers) = sz"
proof -
  obtain ls fin where h: "hidden_layers sz hs = (ls, fin)" by (cases "hidden_layers sz hs")
  have o: "map out_features ls = hs" using hidden_layers_out [of sz hs] by (simp add: h)
  then have l: "length ls = length hs" by (metis length_map)
  have i: "in_features (hd (ls @ [\<lparr>in_features = fin, out_features = out\<rparr>])) = sz"
  proof (cases hs)
    case Nil
    with h show ?thesis by simp
  next
    case (Cons x xs)
    with h show ?thesis by (auto split: prod.splits)
  qed
  show ?thesis using o l i by (simp add: h)
qed

lemma run_layers_three:
  "run_layers app relu 0 [l0, l1, l2] h = app l2 (relu (app l1 (relu (app l0 h))))"
  by simp

text \<open>
  Claim C2 says that, for hidden sizes \<open>[64, 32]\<close> and output size 1, every
  attribute's head has three layers of output sizes 64, 32 and 1, the first taking the
  summary vector. With an encoder output of size 300 and two attributes, the second
  attribute's first layer is built with input size 32, the size left over from the first
  attribute's head, not 300.
\<close>

theorem second_head_input_size:
  "initialize_regression [LSTM] 300 128 False [64, 32] 1 [''acceptability'', ''tense'']
   = Inr \<lparr>attributes = [''acceptability'', ''tense''],
          linear_maps =
            [(''acceptability'',
                [\<lparr>in_features = 300, out_features = 64\<rparr>,
                 \<lparr>in_features = 64, out_features = 32\<rparr>,
                 \<lparr>in_features = 32, out_features = 1\<rparr>]),
             (''tense'',
                [\<lparr>in_features = 32, out_features = 64\<rparr>,
                 \<lparr>in_features = 64, out_features = 32\<rparr>,
                 \<lparr>in_features = 32, out_features = 1\<rparr>])],
          attention = False, attention_map = None\<rparr>"
  by (simp add: initialize_regression_def)

subsection \<open>Attention weights\<close>

text \<open>
  Claim C3 says that the attention weights of every example sum to one in both branches.
  In the batched branch, on two examples of three timesteps and the attention parameter as
  it is initialised, every weight is \<open>1/2\<close>: the weights are normalised over the
  two examples, and those of one example sum to \<open>3/2\<close>.
\<close>

theorem batched_attention_over_batch:
  "init_attention_map [LSTM] 2 1 = Inr (AttMat [[0], [0]])
   \<and> run_attention True (AttMat [[0], [0]])
       (T3 [[[1], [2], [3]], [[4], [5], [6]]]) True
     = Inr (T2 [[1/2, 1/2, 1/2], [1/2, 1/2, 1/2]])
   \<and> sum_list [1/2, 1/2, 1/2 :: real] = 3/2"
  by (simp add: init_attention_map_def run_attention_def bmm_col_def mm_col_def dot_def
      squeeze3_def dim1_def dim2_def eval_nat_numeral upt_rec)

text \<open>The branch without a batch dimension does normalise over the timesteps.\<close>

lemma sum_list_exp_nonneg: "0 \<le> sum_list (map exp (xs :: real list))"
  by (rule sum_list_nonneg) auto

lemma sum_list_exp_pos: "xs \<noteq> [] \<Longrightarrow> 0 < sum_list (map exp (xs :: real list))"
proof (cases xs)
  case Nil
  assume "xs \<noteq> []"
  with Nil show ?thesis by simp
next
  case (Cons x ys)
  have "0 < exp x" by simp
  moreover have "0 \<le> sum_list (map exp ys)" by (rule sum_list_exp_nonneg)
  ultimately show ?thesis using Cons by (simp add: add_pos_nonneg)
qed

lemma softmax_sums_to_one:
  assumes "xs \<noteq> []"
  shows "sum_list (map (\<lambda>x. exp x / sum_list (map exp xs)) (xs :: real list)) = 1"
proof -
  define c where "c = sum_list (map exp xs)"
  have c: "0 < c" unfolding c_def using assms by (rule sum_list_exp_pos)
  have "sum_list (map (\<lambda>x. exp x / c) xs) = sum_list (map exp xs) / c"
    by (induction xs) (auto simp: add_divide_distrib)
  then show ?thesis using c by (simp add: c_def)
qed

lemma softmax_nonneg:
  "list_all (\<lambda>w. 0 \<le> w) (map (\<lambda>x. exp x / sum_list (map exp xs)) (xs :: real list))"
proof -
  have "0 \<le> sum_list (map exp xs)" by (rule sum_list_nonneg) auto
  then show ?thesis by (simp add: list_all_iff)
qed

lemma unbatched_attention_weights:
  assumes "run_attention False (AttVec v) (T2 h) True = Inr w" and "h \<noteq> []"
  shows "case w of
           T0 x \<Rightarrow> x = 1
         | T1 ws \<Rightarrow> length ws = length h \<and> list_all (\<lambda>x. 0 \<le> x) ws \<and> sum_list ws = 1
         | _ \<Rightarrow> False"
proof -
  from assms(1) have ok: "mm_col h v = Inr (map (\<lambda>r. [dot r v]) h)"
    and w: "w = softmax0 (squeeze2 (map (\<lambda>r. [dot r v]) h))"
    by (auto simp: run_attention_def mm_col_def split: if_splits)
  show ?thesis
  proof (cases h)
    case Nil
    with assms(2) show ?thesis by simp
  next
    case (Cons r rs)
    show ?thesis
    proof (cases rs)
      case Nil
      with Cons w show ?thesis by (simp add: squeeze2_def squeeze1_def)
    next
      case (Cons r' rs')
      with \<open>h = r # rs\<close> have sq: "squeeze2 (map (\<lambda>r. [dot r v]) h) = T1 (map (\<lambda>r. dot r v) h)"
        by (simp add: squeeze2_def dim1_def)
      have ne: "map (\<lambda>r. dot r v) h \<noteq> []" using assms(2) by simp
      show ?thesis
        using softmax_sums_to_one [OF ne] softmax_nonneg [of "map (\<lambda>r. dot r v) h"]
        by (simp add: w sq)
    qed
  qed
qed

subsection \<open>The timestep selector\<close>

lemma map_err_all_ok:
  "(\<And>x. x \<in> set xs \<Longrightarrow> f x = Inr (g x)) \<Longrightarrow> map_err f xs = Inr (map g xs)"
  by (induction xs) auto

text \<open>
  Claim C7. For a padded \<open>b \<times> t \<times> d\<close> output and one true length per
  example, each between 1 and \<open>t\<close>, the selector returns for every example the
  vector at index \<open>length - 1\<close> (squeezed; a \<open>b \<times> d\<close> matrix when
  \<open>b > 1\<close> and \<open>d > 1\<close>), and that index is \<open>t - 1\<close> only for an
  example whose length is \<open>t\<close>.
\<close>

theorem choose_timestep_last_valid:
  assumes shape: "shape3 output b t d"
    and len: "length idxs = b"
    and range: "list_all (\<lambda>l. 1 \<le> l \<and> l \<le> int t) idxs"
  shows "choose_timestep output idxs
           = Inr (squeeze3 (map (\<lambda>(seq, l). [seq ! nat (l - 1)]) (zip output idxs)))
         \<and> (1 < b \<and> 1 < d \<longrightarrow>
              choose_timestep output idxs
                = Inr (T2 (map (\<lambda>(seq, l). seq ! nat (l - 1)) (zip output idxs))))
         \<and> list_all (\<lambda>l. nat (l - 1) = t - 1 \<longrightarrow> l = int t) idxs"
proof -
  have lo: "length output = b" using shape by (simp add: shape3_def)
  have ex: "expand_idx (map (\<lambda>l. l - 1) idxs) (length output) = Inr (map (\<lambda>l. l - 1) idxs)"
    by (simp add: expand_idx_def lo len)
  have d2: "dim2 output = d" if "0 < b" "0 < t"
  proof -
    from that(1) lo obtain s ss where o: "output = s # ss" by (cases "output") auto
    with shape have ls: "length s = t" and lv: "list_all (\<lambda>v. length v = d) s"
      by (simp_all add: shape3_def)
    from ls that(2) obtain v vs where sv: "s = v # vs" by (cases s) auto
    with lv have "length v = d" by simp
    then show ?thesis by (simp add: o sv dim2_def dim1_def)
  qed
  have row: "gather_row seq i (dim2 output) = Inr [seq ! nat i]"
    if "(seq, i) \<in> set (zip output (map (\<lambda>l. l - 1) idxs))" for seq i
  proof -
    from that have s: "seq \<in> set output" and i: "i \<in> set (map (\<lambda>l. l - 1) idxs)"
      by (auto dest: set_zip_leftD set_zip_rightD)
    from i range have ir: "0 \<le> i" "i < int t" by (auto simp: list_all_iff)
    from s shape have ls: "length seq = t" and lv: "\<forall>v \<in> set seq. length v = d"
      by (auto simp: shape3_def list_all_iff)
    from s lo have "0 < b" by (cases "output") auto
    moreover from ir have "0 < t" by simp
    ultimately have dd: "dim2 output = d" by (rule d2)
    from ir ls have "seq ! nat i \<in> set seq" by simp
    with lv have "length (seq ! nat i) = d" by simp
    then have "map (\<lambda>j. seq ! nat i ! j) [0..<d] = seq ! nat i"
      using map_nth [of "seq ! nat i"] by simp
    with ir ls dd show ?thesis by (simp add: gather_row_def)
  qed
  have me: "map_err (\<lambda>(seq, i). gather_row seq i (dim2 output))
              (zip output (map (\<lambda>l. l - 1) idxs))
            = Inr (map (\<lambda>(seq, i). [seq ! nat i]) (zip output (map (\<lambda>l. l - 1) idxs)))"
    by (rule map_err_all_ok) (auto simp: row)
  have re: "map (\<lambda>(seq, i). [seq ! nat i]) (zip output (map (\<lambda>l. l - 1) idxs))
            = map (\<lambda>(seq, l). [seq ! nat (l - 1)]) (zip output idxs)"
    by (simp add: zip_map2 case_prod_beta)
  have main: "choose_timestep output idxs
           = Inr (squeeze3 (map (\<lambda>(seq, l). [seq ! nat (l - 1)]) (zip output idxs)))"
    by (simp add: choose_timestep_def ex me re)
  have two: "squeeze3 (map (\<lambda>(seq, l). [seq ! nat (l - 1)]) (zip output idxs))
               = T2 (map (\<lambda>(seq, l). seq ! nat (l - 1)) (zip output idxs))"
    if b: "1 < b" and d: "1 < d"
  proof -
    obtain s1 s2 ss where o: "output = s1 # s2 # ss"
      using b lo by (cases "output"; cases "tl output") auto
    obtain l1 l2 ls where l: "idxs = l1 # l2 # ls"
      using b len by (cases idxs; cases "tl idxs") auto
    have "1 \<le> l1" "l1 \<le> int t" using range l by auto
    then have "nat (l1 - 1) < t" by auto
    moreover have "length s1 = t" "\<forall>v \<in> set s1. length v = d"
      using shape o by (auto simp: shape3_def list_all_iff)
    ultimately have "length (s1 ! nat (l1 - 1)) = d" by simp
    with d show ?thesis
      by (simp add: o l squeeze3_def dim1_def dim2_def case_prod_beta comp_def)
  qed
  have three: "list_all (\<lambda>l. nat (l - 1) = t - 1 \<longrightarrow> l = int t) idxs"
    using range by (auto simp: list_all_iff)
  show ?thesis using main two three by simp
qed

theorem choose_timestep_last_valid_witness:
  "choose_timestep
     [[[10, 11], [20, 21], [30, 31], [0, 0], [0, 0]],
      [[12, 13], [22, 23], [32, 33], [42, 43], [52, 53]],
      [[14, 15], [24, 25], [0, 0], [0, 0], [0, 0 :: int]]] [3, 5, 2]
   = Inr (T2 [[30, 31], [52, 53], [24, 25]])"
proof -
  have s: "shape3 [[[10, 11], [20, 21], [30, 31], [0, 0], [0, 0]],
      [[12, 13], [22, 23], [32, 33], [42, 43], [52, 53]],
      [[14, 15], [24, 25], [0, 0], [0, 0], [0, 0 :: int]]] 3 5 2"
    by (simp add: shape3_def)
  have l: "length [3, 5, 2 :: int] = 3" by simp
  have r: "list_all (\<lambda>l. 1 \<le> l \<and> l \<le> int 5) [3, 5, 2]" by simp
  show ?thesis using choose_timestep_last_valid [OF s l r]
    by (simp add: squeeze3_def dim1_def dim2_def)
qed

subsection \<open>The embedding table under training\<close>





text \<open>Every token of the vocabulary has such a last position.\<close>

lemma token_last_position:
  assumes "w \<in> set ws"
  shows "\<exists>i < length ws. ws ! i = w \<and> ws ! i \<notin> set (drop (Suc i) ws)"
proof -
  from assms obtain ys zs where ws: "ws = ys @ w # zs" and w: "w \<notin> set zs"
    by (auto dest: split_list_last)
  have "length ys < length ws" "ws ! length ys = w" "drop (Suc (length ys)) ws = zs"
    by (simp_all add: ws)
  with w show ?thesis by auto
qed













subsection \<open>Attention weights of the trained model\<close>

text \<open>No call of the model's \<^verbatim>\<open>attention_weights\<close> returns.\<close>

lemma attention_weights_fails: "\<exists>e. attention_weights m structures = Inl e"
  by (auto simp: attention_weights_def split: list.splits structure.splits sum.splits)

lemma map_err_fails: "xs \<noteq> [] \<Longrightarrow> (\<And>x. \<exists>e. f x = Inl e) \<Longrightarrow> \<exists>e. map_err f xs = Inl e"
proof (cases xs)
  case Nil
  assume "xs \<noteq> []"
  with Nil show ?thesis by simp
next
  case (Cons y ys)
  assume "\<And>x. \<exists>e. f x = Inl e"
  then obtain e where "f y = Inl e" by blast
  with Cons show ?thesis by simp
qed

lemma trainer_attention_weights_fails:
  "zip_star X \<noteq> [] \<Longrightarrow> \<exists>e. trainer_attention_weights m X = Inl e"
  unfolding trainer_attention_weights_def
  by (rule map_err_fails) (auto intro: attention_weights_fails)

text \<open>
  Claim C9 says that with attention enabled the trainer's \<^verbatim>\<open>attention_weights(X)\<close>
  returns one array of weights per example. On a model with attention enabled and one
  example of two words of the vocabulary, the call raises \<^verbatim>\<open>TypeError\<close>.
\<close>

theorem attention_weights_raises:
  "trainer_attention_weights
     \<lparr>embeddings =
        \<lparr>vocab = [''the'', ''cat''], num_embeddings = 2, embedding_size = 2,
         weight = \<lparr>data = [[1, 2], [3, 4]], requires_grad = False\<rparr>,
         vocab_hash = [(''the'', 0), (''cat'', 1)]\<rparr>,
      other_parameters = [], attention_on = True, has_batch_dim = Some False\<rparr>
     [[WordSeq [''the'', ''cat'']]]
   = Inl TypeError"
  by (simp add: trainer_attention_weights_def zip_star_def attention_weights_def
      get_inputs_def embed_index_def)

subsection \<open>Early stopping\<close>

text \<open>
  Claim C4. With at least three epochs configured, the history starting at \<open>[0.0]\<close>
  and the first three epochs producing the mean correlations 0.5, 0.7 and 0.6, the loop
  stops right after the third epoch: it returns the epoch counter 3, the history
  \<open>[0, 0.5, 0.7, 0.6]\<close> and the state the third epoch left.
\<close>

theorem early_stopping_third_epoch:
  assumes "3 \<le> epochs tr"
    and "run_epoch lib tr args st0 = Inr (st1, c1)" and "np_mean c1 = 0.5"
    and "run_epoch lib tr args st1 = Inr (st2, c2)" and "np_mean c2 = 0.7"
    and "run_epoch lib tr args st2 = Inr (st3, c3)" and "np_mean c3 = 0.6"
  shows "fit_loop lib tr args st0 (StopList [0]) 0
           = Inr (3, StopList [0, 0.5, 0.7, 0.6], st3)"
proof -
  have third: "fit_loop lib tr args st2 (StopList [0, 0.5, 0.7]) 2
      = Inr (3, StopList [0, 0.5, 0.7, 0.6], st3)"
    using assms(1) by (subst fit_loop.simps) (simp add: assms(6,7))
  have second: "fit_loop lib tr args st1 (StopList [0, 0.5]) 1
      = fit_loop lib tr args st2 (StopList [0, 0.5, 0.7]) 2"
    using assms(1) by (subst fit_loop.simps) (simp add: assms(4,5))
  have first: "fit_loop lib tr args st0 (StopList [0]) 0
      = fit_loop lib tr args st1 (StopList [0, 0.5]) 1"
    using assms(1) by (subst fit_loop.simps) (simp add: assms(2,3))
  show ?thesis by (simp only: first second third)
qed


theorem early_stopping_third_epoch_witness:
  "fit \<lparr>init_regression = Inr (0 :: int),
        forward = (\<lambda>p structs lens mode. Inr [(''acceptability'', [of_int p])]),
        loss_function = (\<lambda>p t. 0),
        backward_step = (\<lambda>p loss. p + 1),
        pearsonr = (\<lambda>outputs targets.
            Inr (if outputs = [1] then 0.5 else if outputs = [2] then 0.7 else 0.6)),
        print_metric = (\<lambda>l t p. Inr ())\<rparr>
       \<lparr>epochs = 10, trainer_attributes = [''acceptability''],
        trainer_rnn_classes = Scalar LSTM, is_continuous = True\<rparr>
       \<lparr>fit_X = [[()]], fit_Y = [(''acceptability'', [[1]])], fit_lengths = [Lengths [1]],
        dev_x = [[()]], dev_y = [(''acceptability'', [[1]])], dev_lengths = [Lengths [1]],
        verbosity = 0\<rparr>
   = Inr (3, StopList [0, 0.5, 0.7, 0.6],
          \<lparr>model = 3, steps = 3, loss_trace = [0, 0, 0],
           targ_trace = [(''acceptability'', [1, 1, 1])],
           pred_trace = [(''acceptability'', [0, 1, 2])],
           losses = LossDict [(''acceptability'', 0)]\<rparr>)"
proof -
  define lib :: "(int, unit) library" where
    "lib = \<lparr>init_regression = Inr (0 :: int),
        forward = (\<lambda>p structs lens mode. Inr [(''acceptability'', [of_int p])]),
        loss_function = (\<lambda>p t. 0),
        backward_step = (\<lambda>p loss. p + 1),
        pearsonr = (\<lambda>outputs targets.
            Inr (if outputs = [1] then 0.5 else if outputs = [2] then 0.7 else 0.6)),
        print_metric = (\<lambda>l t p. Inr ())\<rparr>"
  define tr where
    "tr = \<lparr>epochs = 10, trainer_attributes = [''acceptability''],
        trainer_rnn_classes = Scalar LSTM, is_continuous = True\<rparr>"
  define args :: "unit fit_args" where
    "args = \<lparr>fit_X = [[()]], fit_Y = [(''acceptability'', [[1]])], fit_lengths = [Lengths [1]],
        dev_x = [[()]], dev_y = [(''acceptability'', [[1]])], dev_lengths = [Lengths [1]],
        verbosity = 0\<rparr>"
  define s0 :: "int fit_state" where
    "s0 = \<lparr>model = 0, steps = 0, loss_trace = [],
           targ_trace = [(''acceptability'', [])], pred_trace = [(''acceptability'', [])],
           losses = LossList []\<rparr>"
  define s1 :: "int fit_state" where
    "s1 = \<lparr>model = 1, steps = 1, loss_trace = [0],
           targ_trace = [(''acceptability'', [1])], pred_trace = [(''acceptability'', [0])],
           losses = LossDict [(''acceptability'', 0)]\<rparr>"
  define s2 :: "int fit_state" where
    "s2 = \<lparr>model = 2, steps = 2, loss_trace = [0, 0],
           targ_trace = [(''acceptability'', [1, 1])],
           pred_trace = [(''acceptability'', [0, 1])],
           losses = LossDict [(''acceptability'', 0)]\<rparr>"
  define s3 :: "int fit_state" where
    "s3 = \<lparr>model = 3, steps = 3, loss_trace = [0, 0, 0],
           targ_trace = [(''acceptability'', [1, 1, 1])],
           pred_trace = [(''acceptability'', [0, 1, 2])],
           losses = LossDict [(''acceptability'', 0)]\<rparr>"
  note defs = lib_def tr_def args_def run_epoch_def train_batch_def lstm_branch_def
    trace_append_def validation_corrs_def predict_def
  have e1: "run_epoch lib tr args s0 = Inr (s1, [0.5])"
    by (simp add: defs s0_def s1_def)
  have e2: "run_epoch lib tr args s1 = Inr (s2, [0.7])"
    by (simp add: defs s1_def s2_def)
  have e3: "run_epoch lib tr args s2 = Inr (s3, [0.6])"
    by (simp add: defs s2_def s3_def)
  have m1: "np_mean [0.5] = 0.5" and m2: "np_mean [0.7] = 0.7" and m3: "np_mean [0.6] = 0.6"
    by (simp_all add: np_mean_def)
  have ep: "3 \<le> epochs tr" by (simp add: tr_def)
  have loop: "fit_loop lib tr args s0 (StopList [0]) 0
      = Inr (3, StopList [0, 0.5, 0.7, 0.6], s3)"
    by (rule early_stopping_third_epoch [OF ep e1 m1 e2 m2 e3 m3])
  have "fit lib tr args = fit_loop lib tr args s0 (StopList [0]) 0"
    by (simp add: fit_def lib_def tr_def s0_def empty_traces_def)
  with loop show ?thesis by (simp add: lib_def tr_def args_def s3_def)
qed

subsection \<open>The value appended to the history\<close>

text \<open>
  Given predictions under both keys, the first loop ends with the correlation of the last
  attribute only (here 0, that of the first being 1).
\<close>

lemma correlation_loop_keeps_last:
  "correlation_loop
     \<lparr>init_regression = Inr (), forward = (\<lambda>p (structs :: unit list) lens mode. Inr []),
      loss_function = (\<lambda>p t. 0), backward_step = (\<lambda>p loss. p),
      pearsonr = (\<lambda>outputs targets. Inr (if outputs = targets then 1 else 0)),
      print_metric = (\<lambda>l t p. Inr ())\<rparr>
     [(''acceptability'', [1, 2]), (''tense'', [3, 4])]
     [(''acceptability'', [[1, 2]]), (''tense'', [[5, 6]])]
     [''acceptability'', ''tense''] None
   = Inr (Some 0)"
  by simp

text \<open>
  \<^verbatim>\<open>predict\<close> returns the key \<^verbatim>\<open>'acceptability'\<close> alone, so the validation
  raises for any other configured attribute; with that one attribute it gives the
  correlation of its predictions and targets.
\<close>

lemma validation_other_attribute:
  assumes "a \<in> set (trainer_attributes tr)" and "a \<noteq> ''acceptability''"
  shows "\<exists>e. validation_corrs lib tr args m = Inl e"
proof -
  have loop: "\<exists>e. correlation_loop lib [(''acceptability'', acc)] dy attrs c = Inl e"
    if "a \<in> set attrs" for acc dy attrs c
    using that assms(2)
    by (induction attrs arbitrary: c) (auto split: sum.splits)
  show ?thesis
  proof (cases "predict lib m (dev_x args) (dev_lengths args)")
    case (Inl e)
    then show ?thesis by (simp add: validation_corrs_def)
  next
    case (Inr ps)
    then obtain acc where "ps = [(''acceptability'', acc)]"
      by (auto simp: predict_def split: sum.splits)
    with Inr loop [OF assms(1), of acc "dev_y args" None] show ?thesis
      by (auto simp: validation_corrs_def)
  qed
qed

lemma validation_single_attribute:
  assumes "trainer_attributes tr = [''acceptability'']"
    and "predict lib m (dev_x args) (dev_lengths args) = Inr ps"
    and "dict_get ps ''acceptability'' = Inr outputs"
    and "dict_get (dev_y args) ''acceptability'' = Inr batches"
    and "pearsonr lib outputs (concat batches) = Inr c"
  shows "validation_corrs lib tr args m = Inr [c]" and "np_mean [c] = c"
  using assms by (simp_all add: validation_corrs_def np_mean_def)

text \<open>
  Claim C5 says that for every configured attribute set the value appended to the history
  is the mean over the attributes of each attribute's correlation. With the attributes
  \<^verbatim>\<open>'acceptability'\<close> and \<^verbatim>\<open>'tense'\<close>, a module predicting both and targets
  for both, the validation raises \<^verbatim>\<open>KeyError\<close> and nothing is appended.
\<close>

theorem validation_two_attributes_raises:
  "validation_corrs
     \<lparr>init_regression = Inr (),
      forward = (\<lambda>p (structs :: unit list) lens mode.
          Inr [(''acceptability'', [1, 2]), (''tense'', [3, 4])]),
      loss_function = (\<lambda>p t. 0), backward_step = (\<lambda>p loss. p),
      pearsonr = (\<lambda>outputs targets. Inr (if outputs = targets then 1 else 0)),
      print_metric = (\<lambda>l t p. Inr ())\<rparr>
     \<lparr>epochs = 10, trainer_attributes = [''acceptability'', ''tense''],
      trainer_rnn_classes = Scalar LSTM, is_continuous = True\<rparr>
     \<lparr>fit_X = [[(), ()]],
      fit_Y = [(''acceptability'', [[1, 2]]), (''tense'', [[3, 4]])],
      fit_lengths = [Lengths [1, 1]], dev_x = [[(), ()]],
      dev_y = [(''acceptability'', [[1, 2]]), (''tense'', [[3, 4]])],
      dev_lengths = [Lengths [1, 1]], verbosity = 0\<rparr>
     ()
   = Inl KeyError"
  by (simp add: validation_corrs_def predict_def)

subsection \<open>Training with a class other than the LSTM\<close>

text \<open>
  The branch on one batch: with no example paired, the loop over the examples returns and
  leaves the state as it is; with one, its first statement raises.
\<close>

lemma tree_branch_cases:
  "tree_branch st structs entry =
     (case iter_items entry of
        Inl e \<Rightarrow> Inl e
      | Inr targs \<Rightarrow> if zip structs targs = [] then Inr st else Inl AttributeError)"
proof (cases "iter_items entry")
  case (Inl e)
  then show ?thesis by (simp add: tree_branch_def)
next
  case (Inr targs)
  show ?thesis
  proof (cases "zip structs targs")
    case Nil
    show ?thesis by (simp add: tree_branch_def Inr Nil)
  next
    case (Cons x xs)
    obtain struct targ where x: "x = (struct, targ)" by (cases x)
    show ?thesis by (simp add: tree_branch_def dict_append_def Inr Cons x)
  qed
qed

lemma tree_batch_raises:
  assumes "trainer_rnn_classes tr \<noteq> Scalar LSTM" and "losses st = LossList l"
  shows "train_batch lib tr args st i structs entry =
           Inl (case iter_items entry of Inl e \<Rightarrow> e | Inr targs \<Rightarrow> AttributeError, steps st)"
  using assms by (simp add: train_batch_def tree_branch_cases split: sum.splits)

lemma tree_epoch_raises:
  assumes "trainer_rnn_classes tr \<noteq> Scalar LSTM"
    and "zip (fit_X args) (fit_lengths args) = (structs, entry) # rest"
  shows "run_epoch lib tr args st =
           (case dict_get (fit_Y args) ''acceptability'' of
              Inl e \<Rightarrow> Inl (e, steps st)
            | Inr y \<Rightarrow>
                Inl (case iter_items entry of Inl e \<Rightarrow> e | Inr targs \<Rightarrow> AttributeError,
                     steps st))"
proof -
  have "train_batch lib tr args (st\<lparr>losses := LossList []\<rparr>) 0 structs entry
      = Inl (case iter_items entry of Inl e \<Rightarrow> e | Inr targs \<Rightarrow> AttributeError, steps st)"
    using tree_batch_raises [OF assms(1), of "st\<lparr>losses := LossList []\<rparr>" "[]"] by simp
  then show ?thesis by (simp add: run_epoch_def assms(2) split: sum.splits)
qed

text \<open>
  Claim C10, amended. For a trainer whose \<^verbatim>\<open>rnn_classes\<close> is not the LSTM class and
  whose \<^verbatim>\<open>epochs\<close> is at least 1, every call of \<^verbatim>\<open>fit\<close> with a non-empty
  list of batches (\<open>structs\<close> and \<open>entry\<close> being the structures and the
  lengths of the first) raises an exception, no gradient step completed. When the module
  is built, the reads of \<^verbatim>\<open>Y\<close> before the batches succeed and the lengths of the
  first batch can be iterated, the exception is the \<^verbatim>\<open>AttributeError\<close> of the branch
  in the first batch: the loop over the examples raises it at the first example
  (\<^verbatim>\<open>append\<close> on the dictionary of traces), and when the batch pairs no example the
  loop returns and \<^verbatim>\<open>values\<close> on the list of losses raises it.
\<close>

theorem non_chain_fit_raises:
  assumes "trainer_rnn_classes tr \<noteq> Scalar LSTM"
    and "1 \<le> epochs tr"
    and "zip (fit_X args) (fit_lengths args) = (structs, entry) # rest"
  shows "(\<exists>e. fit lib tr args = Inl (e, 0))
       \<and> (\<forall>m y targs.
             init_regression lib = Inr m
             \<and> (is_continuous tr
                  \<or> (\<exists>c. map_err (dict_get (fit_Y args)) (trainer_attributes tr) = Inr c))
             \<and> dict_get (fit_Y args) ''acceptability'' = Inr y
             \<and> iter_items entry = Inr targs
           \<longrightarrow> fit lib tr args = Inl (AttributeError, 0)
               \<and> (\<forall>st. tree_branch st structs entry
                          = (if zip structs targs = [] then Inr st else Inl AttributeError))
               \<and> loss_values (LossList []) = Inl AttributeError)"
proof -
  have loop: "fit_loop lib tr args st es 0 =
           (case dict_get (fit_Y args) ''acceptability'' of
              Inl e \<Rightarrow> Inl (e, steps st)
            | Inr y \<Rightarrow>
                Inl (case iter_items entry of Inl e \<Rightarrow> e | Inr targs \<Rightarrow> AttributeError,
                     steps st))" for st es
    using assms(2)
    by (subst fit_loop.simps)
       (simp add: tree_epoch_raises [OF assms(1,3)] split: sum.splits)
  have raises: "\<exists>e. fit lib tr args = Inl (e, 0)"
    by (auto simp: fit_def loop split: sum.splits)
  have which: "fit lib tr args = Inl (AttributeError, 0)"
    if "init_regression lib = Inr m"
      and "is_continuous tr
             \<or> (\<exists>c. map_err (dict_get (fit_Y args)) (trainer_attributes tr) = Inr c)"
      and "dict_get (fit_Y args) ''acceptability'' = Inr y"
      and "iter_items entry = Inr targs" for m y targs
    using that by (auto simp: fit_def loop)
  have branch: "tree_branch st structs entry
      = (if zip structs targs = [] then Inr st else Inl AttributeError)"
    if "iter_items entry = Inr targs" for st :: "'c fit_state" and targs
    using that by (simp add: tree_branch_cases)
  show ?thesis using raises which branch by simp
qed

theorem non_chain_fit_raises_witness:
  "fit \<lparr>init_regression = Inr (0 :: int),
        forward = (\<lambda>p (structs :: unit list) lens mode. Inr [(''acceptability'', [0])]),
        loss_function = (\<lambda>p t. 0), backward_step = (\<lambda>p loss. p + 1),
        pearsonr = (\<lambda>outputs targets. Inr 0),
        print_metric = (\<lambda>l t p. Inr ())\<rparr>
       \<lparr>epochs = 1, trainer_attributes = [''acceptability''],
        trainer_rnn_classes = Scalar ChildSumTreeLSTM, is_continuous = True\<rparr>
       \<lparr>fit_X = [[()]], fit_Y = [(''acceptability'', [[1]])], fit_lengths = [Lengths [1]],
        dev_x = [[()]], dev_y = [(''acceptability'', [[1]])], dev_lengths = [Lengths [1]],
        verbosity = 1\<rparr>
   = Inl (AttributeError, 0)
   \<and> tree_branch
       \<lparr>model = 0 :: int, steps = 0, loss_trace = [],
        targ_trace = [(''acceptability'', [])], pred_trace = [(''acceptability'', [])],
        losses = LossList []\<rparr>
       [()] (Lengths [1])
     = Inl AttributeError"
proof -
  define lib :: "(int, unit) library" where
    "lib = \<lparr>init_regression = Inr (0 :: int),
        forward = (\<lambda>p (structs :: unit list) lens mode. Inr [(''acceptability'', [0])]),
        loss_function = (\<lambda>p t. 0), backward_step = (\<lambda>p loss. p + 1),
        pearsonr = (\<lambda>outputs targets. Inr 0),
        print_metric = (\<lambda>l t p. Inr ())\<rparr>"
  define tr where
    "tr = \<lparr>epochs = 1, trainer_attributes = [''acceptability''],
        trainer_rnn_classes = Scalar ChildSumTreeLSTM, is_continuous = True\<rparr>"
  define args :: "unit fit_args" where
    "args = \<lparr>fit_X = [[()]], fit_Y = [(''acceptability'', [[1]])],
        fit_lengths = [Lengths [1]], dev_x = [[()]],
        dev_y = [(''acceptability'', [[1]])], dev_lengths = [Lengths [1]],
        verbosity = 1\<rparr>"
  define s0 :: "int fit_state" where
    "s0 = \<lparr>model = 0, steps = 0, loss_trace = [],
           targ_trace = [(''acceptability'', [])], pred_trace = [(''acceptability'', [])],
           losses = LossList []\<rparr>"
  have a: "trainer_rnn_classes tr \<noteq> Scalar LSTM" by (simp add: tr_def)
  have b: "1 \<le> epochs tr" by (simp add: tr_def)
  have c: "zip (fit_X args) (fit_lengths args) = ([()], Lengths [1]) # []"
    by (simp add: args_def)
  have pre: "init_regression lib = Inr 0
      \<and> (is_continuous tr
           \<or> (\<exists>c. map_err (dict_get (fit_Y args)) (trainer_attributes tr) = Inr c))
      \<and> dict_get (fit_Y args) ''acceptability'' = Inr [[1]]
      \<and> iter_items (Lengths [1]) = Inr [1]"
    by (simp add: lib_def tr_def args_def)
  from non_chain_fit_raises [OF a b c, of lib] pre
  have "fit lib tr args = Inl (AttributeError, 0)
      \<and> (\<forall>st :: int fit_state. tree_branch st [()] (Lengths [1])
            = (if zip [()] [1 :: int] = [] then Inr st else Inl AttributeError))"
    by blast
  then have "fit lib tr args = Inl (AttributeError, 0)
      \<and> tree_branch s0 [()] (Lengths [1]) = Inl AttributeError"
    by simp
  then show ?thesis by (simp only: lib_def tr_def args_def s0_def)
qed

text \<open>
  Claim C10 as stated fails in five ways. With \<^verbatim>\<open>epochs = 0\<close> the call returns, no
  exception raised and no batch read. With at least one epoch, a module that cannot be
  built (here for want of \<^verbatim>\<open>embedding_size\<close>) or a \<^verbatim>\<open>Y\<close> without the key
  \<^verbatim>\<open>'acceptability'\<close> raises before any batch is read, and a number as the lengths of
  the first batch raises \<^verbatim>\<open>TypeError\<close> in \<^verbatim>\<open>zip\<close>, before any example. With no
  structure in the first batch there is no first example: the loop over the examples
  returns.
\<close>

theorem non_chain_fit_exceptions:
  "fit \<lparr>init_regression = Inr (0 :: int),
        forward = (\<lambda>p (structs :: unit list) lens mode. Inr [(''acceptability'', [0])]),
        loss_function = (\<lambda>p t. 0), backward_step = (\<lambda>p loss. p + 1),
        pearsonr = (\<lambda>outputs targets. Inr 0),
        print_metric = (\<lambda>l t p. Inr ())\<rparr>
       \<lparr>epochs = 0, trainer_attributes = [''acceptability''],
        trainer_rnn_classes = Scalar ChildSumTreeLSTM, is_continuous = True\<rparr>
       \<lparr>fit_X = [[()]], fit_Y = [(''acceptability'', [[1]])], fit_lengths = [Lengths [1]],
        dev_x = [[()]], dev_y = [(''acceptability'', [[1]])], dev_lengths = [Lengths [1]],
        verbosity = 1\<rparr>
   = Inr (0, StopList [0],
          \<lparr>model = 0, steps = 0, loss_trace = [],
           targ_trace = [(''acceptability'', [])], pred_trace = [(''acceptability'', [])],
           losses = LossList []\<rparr>)
   \<and> fit \<lparr>init_regression = (Inl NameError :: error + int),
        forward = (\<lambda>p (structs :: unit list) lens mode. Inr [(''acceptability'', [0])]),
        loss_function = (\<lambda>p t. 0), backward_step = (\<lambda>p loss. p + 1),
        pearsonr = (\<lambda>outputs targets. Inr 0),
        print_metric = (\<lambda>l t p. Inr ())\<rparr>
       \<lparr>epochs = 1, trainer_attributes = [''acceptability''],
        trainer_rnn_classes = Scalar ChildSumTreeLSTM, is_continuous = True\<rparr>
       \<lparr>fit_X = [[()]], fit_Y = [(''acceptability'', [[1]])], fit_lengths = [Lengths [1]],
        dev_x = [[()]], dev_y = [(''acceptability'', [[1]])], dev_lengths = [Lengths [1]],
        verbosity = 1\<rparr>
   = Inl (NameError, 0)
   \<and> fit \<lparr>init_regression = Inr (0 :: int),
        forward = (\<lambda>p (structs :: unit list) lens mode. Inr [(''acceptability'', [0])]),
        loss_function = (\<lambda>p t. 0), backward_step = (\<lambda>p loss. p + 1),
        pearsonr = (\<lambda>outputs targets. Inr 0),
        print_metric = (\<lambda>l t p. Inr ())\<rparr>
       \<lparr>epochs = 1, trainer_attributes = [''tense''],
        trainer_rnn_classes = Scalar ChildSumTreeLSTM, is_continuous = True\<rparr>
       \<lparr>fit_X = [[()]], fit_Y = [(''tense'', [[1]])], fit_lengths = [Lengths [1]],
        dev_x = [[()]], dev_y = [(''tense'', [[1]])], dev_lengths = [Lengths [1]],
        verbosity = 1\<rparr>
   = Inl (KeyError, 0)
   \<and> fit \<lparr>init_regression = Inr (0 :: int),
        forward = (\<lambda>p (structs :: unit list) lens mode. Inr [(''acceptability'', [0])]),
        loss_function = (\<lambda>p t. 0), backward_step = (\<lambda>p loss. p + 1),
        pearsonr = (\<lambda>outputs targets. Inr 0),
        print_metric = (\<lambda>l t p. Inr ())\<rparr>
       \<lparr>epochs = 1, trainer_attributes = [''acceptability''],
        trainer_rnn_classes = Scalar ChildSumTreeLSTM, is_continuous = True\<rparr>
       \<lparr>fit_X = [[()]], fit_Y = [(''acceptability'', [[1]])], fit_lengths = [Length 1],
        dev_x = [[()]], dev_y = [(''acceptability'', [[1]])], dev_lengths = [Length 1],
        verbosity = 1\<rparr>
   = Inl (TypeError, 0)
   \<and> tree_branch
       \<lparr>model = 0 :: int, steps = 0, loss_trace = [],
        targ_trace = [(''acceptability'', [])], pred_trace = [(''acceptability'', [])],
        losses = LossList []\<rparr>
       ([] :: unit list) (Lengths [1])
     = Inr \<lparr>model = 0, steps = 0, loss_trace = [],
            targ_trace = [(''acceptability'', [])], pred_trace = [(''acceptability'', [])],
            losses = LossList []\<rparr>"
proof -
  note defs = fit_def empty_traces_def fit_loop.simps run_epoch_def train_batch_def
    tree_branch_def dict_append_def
  have zero: "fit \<lparr>init_regression = Inr (0 :: int),
        forward = (\<lambda>p (structs :: unit list) lens mode. Inr [(''acceptability'', [0])]),
        loss_function = (\<lambda>p t. 0), backward_step = (\<lambda>p loss. p + 1),
        pearsonr = (\<lambda>outputs targets. Inr 0),
        print_metric = (\<lambda>l t p. Inr ())\<rparr>
       \<lparr>epochs = 0, trainer_attributes = [''acceptability''],
        trainer_rnn_classes = Scalar ChildSumTreeLSTM, is_continuous = True\<rparr>
       \<lparr>fit_X = [[()]], fit_Y = [(''acceptability'', [[1]])], fit_lengths = [Lengths [1]],
        dev_x = [[()]], dev_y = [(''acceptability'', [[1]])], dev_lengths = [Lengths [1]],
        verbosity = 1\<rparr>
   = Inr (0, StopList [0],
          \<lparr>model = 0, steps = 0, loss_trace = [],
           targ_trace = [(''acceptability'', [])], pred_trace = [(''acceptability'', [])],
           losses = LossList []\<rparr>)"
    by (simp add: fit_def empty_traces_def fit_loop.simps)
  have build: "fit \<lparr>init_regression = (Inl NameError :: error + int),
        forward = (\<lambda>p (structs :: unit list) lens mode. Inr [(''acceptability'', [0])]),
        loss_function = (\<lambda>p t. 0), backward_step = (\<lambda>p loss. p + 1),
        pearsonr = (\<lambda>outputs targets. Inr 0),
        print_metric = (\<lambda>l t p. Inr ())\<rparr>
       \<lparr>epochs = 1, trainer_attributes = [''acceptability''],
        trainer_rnn_classes = Scalar ChildSumTreeLSTM, is_continuous = True\<rparr>
       \<lparr>fit_X = [[()]], fit_Y = [(''acceptability'', [[1]])], fit_lengths = [Lengths [1]],
        dev_x = [[()]], dev_y = [(''acceptability'', [[1]])], dev_lengths = [Lengths [1]],
        verbosity = 1\<rparr>
   = Inl (NameError, 0)"
    by (simp add: fit_def)
  have key: "fit \<lparr>init_regression = Inr (0 :: int),
        forward = (\<lambda>p (structs :: unit list) lens mode. Inr [(''acceptability'', [0])]),
        loss_function = (\<lambda>p t. 0), backward_step = (\<lambda>p loss. p + 1),
        pearsonr = (\<lambda>outputs targets. Inr 0),
        print_metric = (\<lambda>l t p. Inr ())\<rparr>
       \<lparr>epochs = 1, trainer_attributes = [''tense''],
        trainer_rnn_classes = Scalar ChildSumTreeLSTM, is_continuous = True\<rparr>
       \<lparr>fit_X = [[()]], fit_Y = [(''tense'', [[1]])], fit_lengths = [Lengths [1]],
        dev_x = [[()]], dev_y = [(''tense'', [[1]])], dev_lengths = [Lengths [1]],
        verbosity = 1\<rparr>
   = Inl (KeyError, 0)"
    by (simp add: defs)
  have scalar: "fit \<lparr>init_regression = Inr (0 :: int),
        forward = (\<lambda>p (structs :: unit list) lens mode. Inr [(''acceptability'', [0])]),
        loss_function = (\<lambda>p t. 0), backward_step = (\<lambda>p loss. p + 1),
        pearsonr = (\<lambda>outputs targets. Inr 0),
        print_metric = (\<lambda>l t p. Inr ())\<rparr>
       \<lparr>epochs = 1, trainer_attributes = [''acceptability''],
        trainer_rnn_classes = Scalar ChildSumTreeLSTM, is_continuous = True\<rparr>
       \<lparr>fit_X = [[()]], fit_Y = [(''acceptability'', [[1]])], fit_lengths = [Length 1],
        dev_x = [[()]], dev_y = [(''acceptability'', [[1]])], dev_lengths = [Length 1],
        verbosity = 1\<rparr>
   = Inl (TypeError, 0)"
    by (simp add: defs)
  have empty: "tree_branch
       \<lparr>model = 0 :: int, steps = 0, loss_trace = [],
        targ_trace = [(''acceptability'', [])], pred_trace = [(''acceptability'', [])],
        losses = LossList []\<rparr>
       ([] :: unit list) (Lengths [1])
     = Inr \<lparr>model = 0, steps = 0, loss_trace = [],
            targ_trace = [(''acceptability'', [])], pred_trace = [(''acceptability'', [])],
            losses = LossList []\<rparr>"
    by (simp add: tree_branch_def)
  show ?thesis by (simp only: zero build key scalar empty)
qed

end
